theory Spec2Isabelle
  imports Main "HOL-Library.Word" "HOL-Library.AList"
begin

unbundle bit_operations_syntax

section \<open>Collaborators of the fetch function\<close>

subsection \<open>Timings and errors\<close>

text \<open>
  \<^verbatim>\<open>timeInMilis\<close> returns the text produced by \<^verbatim>\<open>toFixed(2)\<close>. The clock is not
  part of the model: every event carries the reading that
  \<^verbatim>\<open>timeInMilis(process.hrtime(startAt))\<close> gives when its handler runs.
\<close>

type_synonym millis = string

record timings =
  dnsLookupTime :: "millis option"
  tcpConnectionTime :: "millis option"
  tlsHandshakeTime :: "millis option"
  firstByteTime :: "millis option"
  totalTime :: "millis option"

text \<open>The object literal \<^verbatim>\<open>{}\<close>: no field is set.\<close>

definition empty_timings :: timings where
  "empty_timings = \<lparr>dnsLookupTime = None, tcpConnectionTime = None, tlsHandshakeTime = None,
     firstByteTime = None, totalTime = None\<rparr>"

text \<open>
  Modelled from the spec: the error kinds (abort-error.js, fetch-error.js and headers.js
  are not among the sources). index.js builds \<^verbatim>\<open>AbortError(message)\<close> and
  \<^verbatim>\<open>FetchError(message, type)\<close>; the exception of \<^verbatim>\<open>headers.set\<close> on a malformed value
  is the spec's HeaderCorruptionError and carries the rejected value.
\<close>

datatype error =
    AbortError string
  | FetchError string string
  | HeaderCorruptionError string

subsection \<open>Headers\<close>

text \<open>
  Modelled from the spec: the header container (headers.js is not among the sources) is
  an ordered multi-value string map with case-insensitive keys. The model keeps every
  name in lower case, one entry per name, in insertion order, with the list of its values.
  \<^verbatim>\<open>get\<close> joins the values of a name with a comma and a blank and gives null (\<open>None\<close>)
  for an absent name. \<^verbatim>\<open>set\<close> fails on a malformed value; which values are malformed is
  a parameter. \<^verbatim>\<open>new Headers(h)\<close> copies \<open>h\<close>; a copy of a value is the value.
\<close>

type_synonym headers = "(string \<times> string list) list"

definition lower_char :: "char \<Rightarrow> char" where
  "lower_char c =
     (case map_of (zip ''ABCDEFGHIJKLMNOPQRSTUVWXYZ'' ''abcdefghijklmnopqrstuvwxyz'') c of
        Some d \<Rightarrow> d
      | None \<Rightarrow> c)"

definition lower :: "string \<Rightarrow> string" where
  "lower name = map lower_char name"

fun join_values :: "string list \<Rightarrow> string" where
  "join_values [] = []"
| "join_values [v] = v"
| "join_values (v # w # vs) = v @ '', '' @ join_values (w # vs)"

definition Headers_get :: "headers \<Rightarrow> string \<Rightarrow> string option" where
  "Headers_get h name = map_option join_values (map_of h (lower name))"

definition Headers_has :: "headers \<Rightarrow> string \<Rightarrow> bool" where
  "Headers_has h name = (map_of h (lower name) \<noteq> None)"

definition Headers_set :: "(string \<Rightarrow> bool) \<Rightarrow> headers \<Rightarrow> string \<Rightarrow> string \<Rightarrow> error + headers" where
  "Headers_set legal h name v =
     (if legal v then Inr (AList.update (lower name) [v] h)
      else Inl (HeaderCorruptionError v))"

definition Headers_append :: "headers \<Rightarrow> string \<Rightarrow> string \<Rightarrow> headers" where
  "Headers_append h name v =
     (case map_of h (lower name) of
        None \<Rightarrow> AList.update (lower name) [v] h
      | Some vs \<Rightarrow> AList.update (lower name) (vs @ [v]) h)"

definition Headers_delete :: "headers \<Rightarrow> string \<Rightarrow> headers" where
  "Headers_delete h name = AList.delete (lower name) h"

text \<open>JavaScript truthiness of an optional string: undefined and the empty string are falsy.\<close>

definition truthy :: "string option \<Rightarrow> bool" where
  "truthy v = (case v of None \<Rightarrow> False | Some t \<Rightarrow> t \<noteq> [])"

section \<open>response.js\<close>

text \<open>
  The options object of the constructor; an absent key is \<open>None\<close>. \<^verbatim>\<open>size\<close> and
  \<^verbatim>\<open>timeout\<close> are read by \<^verbatim>\<open>Body.call\<close> only (body.js is not among the sources).
\<close>

record response_options =
  url :: "string option"
  status :: "nat option"
  statusText :: "string option"
  headers :: "headers option"
  remoteAddress :: "string option"
  size :: "nat option"
  timeout :: "nat option"

text \<open>
  The internals of a Response, with the body that \<^verbatim>\<open>Body.call(this, body, opts)\<close> keeps.
  The type of bodies is a parameter.
\<close>

record 'b Response =
  url :: "string option"
  status :: nat
  statusText :: "string option"
  headers :: headers
  timings :: timings
  remoteAddress :: "string option"
  body :: "'b option"

text \<open>
  \<^verbatim>\<open>constructor(body = null, opts = {}, timings = {})\<close>. \<^verbatim>\<open>http.STATUS_CODES\<close> (a table of
  Node) and \<^verbatim>\<open>extractContentType\<close> (body.js) are parameters. An omitted third argument
  is \<open>None\<close> and takes the default \<^verbatim>\<open>{}\<close>.
\<close>

definition Response_new ::
  "(nat \<Rightarrow> string option) \<Rightarrow> ('b \<Rightarrow> string option) \<Rightarrow>
     'b option \<Rightarrow> response_options \<Rightarrow> timings option \<Rightarrow> 'b Response" where
  "Response_new STATUS_CODES extractContentType body_arg opts timings_arg =
     (let status' = (case response_options.status opts of
                       None \<Rightarrow> 200
                     | Some n \<Rightarrow> if n = 0 then 200 else n);
          headers0 = (case response_options.headers opts of None \<Rightarrow> [] | Some h \<Rightarrow> h);
          headers' =
            (case body_arg of
               None \<Rightarrow> headers0
             | Some b \<Rightarrow>
                 if \<not> Headers_has headers0 ''Content-Type'' then
                   (case extractContentType b of
                      None \<Rightarrow> headers0
                    | Some contentType \<Rightarrow>
                        if contentType \<noteq> []
                        then Headers_append headers0 ''Content-Type'' contentType
                        else headers0)
                 else headers0)
      in \<lparr>Response.url = response_options.url opts,
          status = status',
          statusText = (if truthy (response_options.statusText opts)
                        then response_options.statusText opts
                        else STATUS_CODES status'),
          headers = headers',
          timings = (case timings_arg of None \<Rightarrow> empty_timings | Some t \<Rightarrow> t),
          remoteAddress = response_options.remoteAddress opts,
          body = body_arg\<rparr>)"

text \<open>
  \<^verbatim>\<open>clone()\<close>: the options carry url, status, statusText and headers (and \<^verbatim>\<open>ok\<close>, which
  the constructor does not read); no third argument is passed. \<^verbatim>\<open>clone(this)\<close> of body.js
  is a parameter: it takes the instance and gives the body of the copy.
\<close>

definition clone ::
  "(nat \<Rightarrow> string option) \<Rightarrow> ('b \<Rightarrow> string option) \<Rightarrow> ('b Response \<Rightarrow> 'b option) \<Rightarrow>
     'b Response \<Rightarrow> 'b Response" where
  "clone STATUS_CODES extractContentType clone_body this =
     Response_new STATUS_CODES extractContentType (clone_body this)
       \<lparr>response_options.url = Response.url this,
        status = Some (Response.status this),
        statusText = Response.statusText this,
        headers = Some (Response.headers this),
        remoteAddress = None,
        size = None,
        timeout = None\<rparr>
       None"

section \<open>index.js: the request and its follow-up\<close>

text \<open>
  Modelled from the spec: the body source of a request descriptor is absent, a
  fixed-length source or an unbounded stream (request.js and body.js are not among the
  sources). \<open>Readable\<close> is the \<^verbatim>\<open>Stream.Readable\<close> whose length is not known.
\<close>

datatype body_source = FixedLength "8 word list" | Readable

text \<open>
  Modelled from the spec: the request descriptor (request.js is not among the sources),
  with the fields that index.js reads. \<^verbatim>\<open>signal\<close> is absent (\<open>None\<close>) or a signal with
  its \<^verbatim>\<open>aborted\<close> flag; \<^verbatim>\<open>agent\<close> is an opaque handle; a timeout of 0 is none.
\<close>

record request =
  url :: string
  "method" :: string
  headers :: headers
  body :: "body_source option"
  redirect :: string
  follow :: nat
  counter :: nat
  compress :: bool
  timeout :: nat
  size :: nat
  agent :: "nat option"
  signal :: "bool option"

text \<open>The object literal \<^verbatim>\<open>requestOpts\<close> of the follow case: these eight keys and no other.\<close>

record requestOpts =
  headers :: headers
  follow :: nat
  counter :: nat
  agent :: "nat option"
  compress :: bool
  "method" :: string
  body :: "body_source option"
  signal :: "bool option"

text \<open>
  Modelled from the spec: \<^verbatim>\<open>new Request(url, init)\<close> (request.js is not among the
  sources) describes one attempt at \<open>url\<close>. It takes what \<open>init\<close> carries; a field that
  \<open>init\<close> does not carry has the descriptor's default: redirect mode follow, timeout 0
  (disabled), size 0.
\<close>

definition Request_new :: "string \<Rightarrow> requestOpts \<Rightarrow> request" where
  "Request_new input init =
     \<lparr>request.url = input,
      method = requestOpts.method init,
      headers = requestOpts.headers init,
      body = requestOpts.body init,
      redirect = ''follow'',
      follow = requestOpts.follow init,
      counter = requestOpts.counter init,
      compress = requestOpts.compress init,
      timeout = 0,
      size = 0,
      agent = requestOpts.agent init,
      signal = requestOpts.signal init\<rparr>"

text \<open>
  Modelled from the spec: \<^verbatim>\<open>getTotalBytes\<close> (body.js is not among the sources) is the
  total byte count of the body of the request, null (\<open>None\<close>) when it is unknown: 0 for
  an absent body, the length of a fixed-length source, unknown for an unbounded stream.
\<close>

definition getTotalBytes :: "request \<Rightarrow> nat option" where
  "getTotalBytes rq =
     (case request.body rq of
        None \<Rightarrow> Some 0
      | Some (FixedLength bytes) \<Rightarrow> Some (length bytes)
      | Some Readable \<Rightarrow> None)"

text \<open>
  The message that the transport hands to the response handler. \<open>headers\<close> is
  \<^verbatim>\<open>createHeadersLenient(res.headers)\<close> (headers.js).
\<close>

record IncomingMessage =
  statusCode :: nat
  statusMessage :: string
  headers :: headers

text \<open>
  The body of a Response that fetch builds: the pass-through of the transport's stream,
  piped into a decompression transform or not. \<open>Gunzip\<close> is
  \<^verbatim>\<open>zlib.createGunzip(zlibOptions)\<close> with the sync-flush options.
\<close>

datatype body_stream = PassThrough | Gunzip | Inflate | InflateRaw

text \<open>
  What index.js takes from outside the repository or from files that are not among the
  sources: \<^verbatim>\<open>Url.resolve\<close> and \<^verbatim>\<open>http.STATUS_CODES\<close> of Node, the check of a header
  value in \<^verbatim>\<open>headers.set\<close>, and \<^verbatim>\<open>extractContentType\<close> of body.js.
\<close>

record env =
  resolve_url :: "string \<Rightarrow> string \<Rightarrow> string"
  legal_value :: "string \<Rightarrow> bool"
  STATUS_CODES :: "nat \<Rightarrow> string option"
  extractContentType :: "body_stream \<Rightarrow> string option"

definition isRedirect :: "nat \<Rightarrow> bool" where
  "isRedirect code = (code = 301 \<or> code = 302 \<or> code = 303 \<or> code = 307 \<or> code = 308)"

section \<open>index.js: one call of fetch\<close>

text \<open>
  The promise of one call: pending, fulfilled with a Response, resolved with the promise
  of the follow-up call \<^verbatim>\<open>fetch(new Request(locationURL, requestOpts))\<close> (it then takes
  the settlement of that call), or rejected. A rejection is an error with the timings
  object attached to it (\<^verbatim>\<open>fe.timings = timings\<close>).
\<close>

datatype settlement =
    Pending
  | Fulfilled "body_stream Response"
  | Forwarded request
  | Rejected error timings

text \<open>
  The variables of the promise executor and the listeners it has registered.
  \<^item> \<open>promise\<close>, \<open>timings\<close>, \<open>response\<close>: the promise and the variables of these names;
  \<^item> \<open>sent\<close>: \<^verbatim>\<open>send(options)\<close> has been called;
  \<^item> \<open>req_aborted\<close>: \<^verbatim>\<open>req.abort()\<close> has been called;
  \<^item> \<open>abort_listener\<close>: \<^verbatim>\<open>abortAndFinalize\<close> is registered on the signal;
  \<^item> \<open>socket_once\<close>: the listener of \<^verbatim>\<open>req.once("socket")\<close> has not run yet;
  \<^item> \<open>socket_listeners\<close>: the listeners of lookup, connect and secureConnect are on;
  \<^item> \<open>reqTimeout\<close>: the timer \<^verbatim>\<open>reqTimeout\<close> is armed;
  \<^item> \<open>response_once\<close>: the transport has not emitted its response yet (it emits one
    response for a request);
  \<^item> \<open>end_once\<close>, \<open>readable_once\<close>: the listeners of \<^verbatim>\<open>res.once("end")\<close> and
    \<^verbatim>\<open>res.once("readable")\<close> are on;
  \<^item> \<open>raw_once\<close>: the listener of \<^verbatim>\<open>raw.once("data")\<close> is on, with the
    \<^verbatim>\<open>response_options\<close> of its closure;
  \<^item> \<open>body_destroyed\<close>: \<^verbatim>\<open>request.body.destroy(error)\<close> has been called;
  \<^item> \<open>stream_errors\<close>: the errors emitted on \<^verbatim>\<open>response.body\<close>, oldest first.
\<close>

record dispatch =
  promise :: settlement
  timings :: timings
  response :: "body_stream Response option"
  sent :: bool
  req_aborted :: bool
  abort_listener :: bool
  socket_once :: bool
  socket_listeners :: bool
  reqTimeout :: bool
  response_once :: bool
  end_once :: bool
  readable_once :: bool
  raw_once :: "response_options option"
  body_destroyed :: bool
  stream_errors :: "error list"

text \<open>
  The errors and the Response of a call hold the object \<^verbatim>\<open>timings\<close> itself, not a copy:
  a later write to it shows in them. \<open>write_timings\<close> is such a write.
\<close>

definition share :: "timings \<Rightarrow> settlement \<Rightarrow> settlement" where
  "share t p =
     (case p of
        Fulfilled r \<Rightarrow> Fulfilled (r\<lparr>Response.timings := t\<rparr>)
      | Rejected e _ \<Rightarrow> Rejected e t
      | _ \<Rightarrow> p)"

definition write_timings :: "(timings \<Rightarrow> timings) \<Rightarrow> dispatch \<Rightarrow> dispatch" where
  "write_timings f s =
     (let t = f (dispatch.timings s)
      in s\<lparr>dispatch.timings := t,
           promise := share t (promise s),
           response := map_option (\<lambda>r. r\<lparr>Response.timings := t\<rparr>) (response s)\<rparr>)"

text \<open>\<^verbatim>\<open>reject\<close> of the promise, after \<^verbatim>\<open>error.timings = timings\<close>: a settled promise stays.\<close>

definition reject :: "error \<Rightarrow> dispatch \<Rightarrow> dispatch" where
  "reject e s =
     (if promise s = Pending then s\<lparr>promise := Rejected e (dispatch.timings s)\<rparr> else s)"

text \<open>
  \<^verbatim>\<open>resolve\<close>: it writes \<^verbatim>\<open>timings.totalTime\<close>, then resolves the promise with the value
  (a Response, or the promise of the follow-up call).
\<close>

definition resolve :: "millis \<Rightarrow> settlement \<Rightarrow> dispatch \<Rightarrow> dispatch" where
  "resolve now v s =
     (let s1 = write_timings (\<lambda>t. t\<lparr>totalTime := Some now\<rparr>) s
      in if promise s1 = Pending
         then s1\<lparr>promise := share (dispatch.timings s1) v\<rparr>
         else s1)"

definition finalize :: "request \<Rightarrow> dispatch \<Rightarrow> dispatch" where
  "finalize rq s =
     (let s1 = s\<lparr>req_aborted := True\<rparr>;
          s2 = (if request.signal rq \<noteq> None then s1\<lparr>abort_listener := False\<rparr> else s1)
      in s2\<lparr>reqTimeout := False\<rparr>)"

definition abort :: "request \<Rightarrow> dispatch \<Rightarrow> dispatch" where
  "abort rq s =
     (let e = AbortError ''The user aborted a request.'';
          s1 = reject e s;
          s2 = (if request.body rq = Some Readable then s1\<lparr>body_destroyed := True\<rparr> else s1)
      in case response s2 of
           None \<Rightarrow> s2
         | Some r \<Rightarrow>
             (case Response.body r of
                None \<Rightarrow> s2
              | Some b \<Rightarrow> s2\<lparr>stream_errors := stream_errors s2 @ [e]\<rparr>))"

definition abortAndFinalize :: "request \<Rightarrow> dispatch \<Rightarrow> dispatch" where
  "abortAndFinalize rq s = finalize rq (abort rq s)"

text \<open>
  The promise executor up to the registration of the handlers: an aborted signal ends the
  call before anything is sent; otherwise the request is sent and \<^verbatim>\<open>abortAndFinalize\<close>
  is registered when there is a signal.
\<close>

definition initial :: dispatch where
  "initial =
     \<lparr>promise = Pending, timings = empty_timings, response = None, sent = False,
      req_aborted = False, abort_listener = False, socket_once = False,
      socket_listeners = False, reqTimeout = False, response_once = False,
      end_once = False, readable_once = False, raw_once = None, body_destroyed = False,
      stream_errors = []\<rparr>"

definition start :: "request \<Rightarrow> dispatch" where
  "start rq =
     (if request.signal rq = Some True then abort rq initial
      else
        (let s1 = initial\<lparr>sent := True\<rparr>;
             s2 = (if request.signal rq \<noteq> None then s1\<lparr>abort_listener := True\<rparr> else s1)
         in s2\<lparr>socket_once := True, response_once := True\<rparr>))"

text \<open>
  \<^verbatim>\<open>response = new Response(body, response_options, timings, extra); resolve(response)\<close>,
  the two lines that every branch of the body handling ends with.
\<close>

definition deliver :: "env \<Rightarrow> millis \<Rightarrow> body_stream \<Rightarrow> response_options \<Rightarrow> dispatch \<Rightarrow> dispatch" where
  "deliver env now b opts s =
     (let r = Response_new (STATUS_CODES env) (extractContentType env) (Some b) opts
                (Some (dispatch.timings s))
      in resolve now (Fulfilled r) (s\<lparr>response := Some r\<rparr>))"

text \<open>The response handler from \<^verbatim>\<open>// prepare response\<close> on (lines 239 to 320).\<close>

definition prepare_response ::
  "env \<Rightarrow> request \<Rightarrow> millis \<Rightarrow> IncomingMessage \<Rightarrow> headers \<Rightarrow> dispatch \<Rightarrow> dispatch" where
  "prepare_response env rq now res hs s0 =
     (let s = s0\<lparr>end_once := True, readable_once := True\<rparr>;
          response_options =
            \<lparr>response_options.url = Some (request.url rq),
             status = Some (statusCode res),
             statusText = Some (statusMessage res),
             headers = Some hs,
             remoteAddress = None,
             size = Some (request.size rq),
             timeout = Some (request.timeout rq)\<rparr>;
          codings = Headers_get hs ''Content-Encoding''
      in if \<not> request.compress rq \<or> request.method rq = ''HEAD'' \<or> codings = None \<or>
            statusCode res = 204 \<or> statusCode res = 304
         then deliver env now PassThrough response_options s
         else if codings = Some ''gzip'' \<or> codings = Some ''x-gzip''
         then deliver env now Gunzip response_options s
         else if codings = Some ''deflate'' \<or> codings = Some ''x-deflate''
         then s\<lparr>raw_once := Some response_options\<rparr>
         else deliver env now PassThrough response_options s)"

text \<open>The object literal \<^verbatim>\<open>requestOpts\<close> (lines 196 to 205).\<close>

definition requestOpts_of :: "request \<Rightarrow> requestOpts" where
  "requestOpts_of rq =
     \<lparr>requestOpts.headers = request.headers rq,
      follow = request.follow rq,
      counter = request.counter rq + 1,
      agent = request.agent rq,
      compress = request.compress rq,
      method = request.method rq,
      body = request.body rq,
      signal = request.signal rq\<rparr>"

text \<open>HTTP-redirect fetch step 11 (lines 222 to 230).\<close>

definition step11 :: "nat \<Rightarrow> request \<Rightarrow> requestOpts \<Rightarrow> requestOpts" where
  "step11 code rq opts =
     (if code = 303 \<or> ((code = 301 \<or> code = 302) \<and> request.method rq = ''POST'')
      then opts\<lparr>requestOpts.method := ''GET'',
                requestOpts.body := None,
                requestOpts.headers := Headers_delete (requestOpts.headers opts) ''content-length''\<rparr>
      else opts)"

text \<open>
  The handler of \<^verbatim>\<open>req.on("response")\<close>. The \<^verbatim>\<open>switch\<close> has no default: a redirect mode
  that is none of the three strings goes on to the body handling, as \<^verbatim>\<open>break\<close> does.
  In the manual case a failed \<^verbatim>\<open>headers.set\<close> rejects and then goes on as well.
\<close>

definition on_response ::
  "env \<Rightarrow> request \<Rightarrow> millis \<Rightarrow> IncomingMessage \<Rightarrow> dispatch \<Rightarrow> dispatch" where
  "on_response env rq now res s0 =
     (let s = s0\<lparr>reqTimeout := False\<rparr>;
          hs = IncomingMessage.headers res
      in if isRedirect (statusCode res) then
           (let location = Headers_get hs ''Location'';
                locationURL = map_option (resolve_url env (request.url rq)) location
            in if request.redirect rq = ''error'' then
                 finalize rq
                   (reject (FetchError (''redirect mode is set to error: '' @ request.url rq)
                              ''no-redirect'') s)
               else if request.redirect rq = ''manual'' then
                 (case locationURL of
                    None \<Rightarrow> prepare_response env rq now res hs s
                  | Some l \<Rightarrow>
                      (case Headers_set (legal_value env) hs ''Location'' l of
                         Inr hs' \<Rightarrow> prepare_response env rq now res hs' s
                       | Inl err \<Rightarrow> prepare_response env rq now res hs (reject err s)))
               else if request.redirect rq = ''follow'' then
                 (case locationURL of
                    None \<Rightarrow> prepare_response env rq now res hs s
                  | Some l \<Rightarrow>
                      if request.counter rq \<ge> request.follow rq then
                        finalize rq
                          (reject (FetchError (''maximum redirect reached at: '' @ request.url rq)
                                     ''max-redirect'') s)
                      else if statusCode res \<noteq> 303 \<and> request.body rq \<noteq> None \<and>
                              getTotalBytes rq = None then
                        finalize rq
                          (reject (FetchError
                                     ''Cannot follow redirect with body being a readable stream''
                                     ''unsupported-redirect'') s)
                      else
                        finalize rq
                          (resolve now
                             (Forwarded
                                (Request_new l (step11 (statusCode res) rq (requestOpts_of rq))))
                             s))
               else prepare_response env rq now res hs s)
         else prepare_response env rq now res hs s)"

text \<open>
  The events that the handlers of one call listen to: the socket of the request and the
  lookup, connect and secureConnect of that socket, the timer, the error and the response
  of the request, the readable and end of the response, the first data of \<^verbatim>\<open>raw\<close>, and
  the abort of the signal.
\<close>

datatype event =
    EvSocket
  | EvLookup
  | EvConnect
  | EvSecureConnect
  | EvTimeout
  | EvError string
  | EvResponse IncomingMessage
  | EvReadable
  | EvData "8 word list"
  | EvEnd
  | EvAbort

text \<open>
  One event: its handler runs when it is registered, and nothing happens otherwise. A
  cleared timer does not fire. \<^verbatim>\<open>chunk[0]\<close> of an empty chunk is undefined, and
  \<^verbatim>\<open>undefined & 0x0f\<close> is 0.
\<close>

fun step :: "env \<Rightarrow> request \<Rightarrow> millis \<Rightarrow> event \<Rightarrow> dispatch \<Rightarrow> dispatch" where
  "step env rq now EvSocket s =
     (if sent s \<and> socket_once s then
        (let s1 = s\<lparr>socket_once := False, socket_listeners := True\<rparr>
         in if request.timeout rq \<noteq> 0 then s1\<lparr>reqTimeout := True\<rparr> else s1)
      else s)"
| "step env rq now EvLookup s =
     (if socket_listeners s then write_timings (\<lambda>t. t\<lparr>dnsLookupTime := Some now\<rparr>) s else s)"
| "step env rq now EvConnect s =
     (if socket_listeners s then write_timings (\<lambda>t. t\<lparr>tcpConnectionTime := Some now\<rparr>) s else s)"
| "step env rq now EvSecureConnect s =
     (if socket_listeners s then write_timings (\<lambda>t. t\<lparr>tlsHandshakeTime := Some now\<rparr>) s else s)"
| "step env rq now EvTimeout s =
     (if reqTimeout s then
        finalize rq
          (reject (FetchError (''network timeout at: '' @ request.url rq) ''request-timeout'') s)
      else s)"
| "step env rq now (EvError message) s =
     (if sent s then
        finalize rq
          (reject (FetchError (''request to '' @ request.url rq @ '' failed, reason: '' @ message)
                     ''system'') s)
      else s)"
| "step env rq now (EvResponse res) s =
     (if sent s \<and> response_once s then on_response env rq now res (s\<lparr>response_once := False\<rparr>)
      else s)"
| "step env rq now EvReadable s =
     (if readable_once s
      then write_timings (\<lambda>t. t\<lparr>firstByteTime := Some now\<rparr>) (s\<lparr>readable_once := False\<rparr>)
      else s)"
| "step env rq now (EvData chunk) s =
     (case raw_once s of
        None \<Rightarrow> s
      | Some response_options \<Rightarrow>
          (let nibble = (case chunk of [] \<Rightarrow> 0 | byte # _ \<Rightarrow> byte AND 0x0f)
           in deliver env now (if nibble = 0x08 then Inflate else InflateRaw) response_options
                (s\<lparr>raw_once := None\<rparr>)))"
| "step env rq now EvEnd s =
     (if end_once s then
        (let s1 = s\<lparr>end_once := False\<rparr>
         in if request.signal rq \<noteq> None then s1\<lparr>abort_listener := False\<rparr> else s1)
      else s)"
| "step env rq now EvAbort s =
     (if abort_listener s then abortAndFinalize rq s else s)"

text \<open>The events of one call in their order, each with the reading of the clock.\<close>

fun run :: "env \<Rightarrow> request \<Rightarrow> (millis \<times> event) list \<Rightarrow> dispatch \<Rightarrow> dispatch" where
  "run env rq [] s = s"
| "run env rq ((now, ev) # evs) s = run env rq evs (step env rq now ev s)"

text \<open>
  A call with its follow-up calls: the first list holds the events of this call, the
  rest those of the calls that follow. A promise resolved with the promise of the
  follow-up call settles as that call does.
\<close>

fun fetch :: "env \<Rightarrow> request \<Rightarrow> (millis \<times> event) list list \<Rightarrow> settlement" where
  "fetch env rq [] = promise (start rq)"
| "fetch env rq (evs # rest) =
     (case promise (run env rq evs (start rq)) of
        Forwarded rq' \<Rightarrow> fetch env rq' rest
      | p \<Rightarrow> p)"

section \<open>Notions used in the statements\<close>

text \<open>
  The responses that the handler takes to the body handling (\<^verbatim>\<open>// prepare response\<close>): a
  status that is no redirect status, or a redirect status in a mode other than error,
  and in mode follow only without a Location header.
\<close>

definition terminal :: "request \<Rightarrow> IncomingMessage \<Rightarrow> bool" where
  "terminal rq res =
     (\<not> isRedirect (statusCode res) \<or>
      (request.redirect rq \<noteq> ''error'' \<and>
       (request.redirect rq \<noteq> ''follow'' \<or>
        Headers_get (IncomingMessage.headers res) ''Location'' = None)))"

text \<open>
  What holds of the promise and of the variable \<^verbatim>\<open>response\<close> in every state of a call: a
  pending promise has no Response yet, a fulfilled promise holds the Response of the
  variable, a Response has a body, and before the response of the transport and while the
  listener of the first data waits there is no Response.
\<close>

definition consistent :: "dispatch \<Rightarrow> bool" where
  "consistent s =
     ((promise s = Pending \<longrightarrow> response s = None) \<and>
      (\<forall>r. promise s = Fulfilled r \<longrightarrow> response s = Some r) \<and>
      (\<forall>r. response s = Some r \<longrightarrow> Response.body r \<noteq> None) \<and>
      (response_once s \<longrightarrow> response s = None \<and> raw_once s = None) \<and>
      (raw_once s \<noteq> None \<longrightarrow> response s = None))"

text \<open>
  After the response of the transport in manual mode: every Response that the call has
  delivered or can still build carries the Location \<open>u\<close>, and the promise is not resolved
  with a follow-up call.
\<close>

definition located :: "string \<Rightarrow> dispatch \<Rightarrow> bool" where
  "located u s =
     (\<not> response_once s \<and>
      (\<forall>r. promise s = Fulfilled r \<longrightarrow> Headers_get (Response.headers r) ''Location'' = Some u) \<and>
      (\<forall>opts. raw_once s = Some opts \<longrightarrow>
         Headers_get (case response_options.headers opts of None \<Rightarrow> [] | Some h \<Rightarrow> h)
           ''Location'' = Some u) \<and>
      (\<forall>q. promise s \<noteq> Forwarded q))"

definition surfaced :: "string \<Rightarrow> dispatch \<Rightarrow> bool" where
  "surfaced u s =
     (\<not> response_once s \<and> (\<exists>t. promise s = Rejected (HeaderCorruptionError u) t))"

text \<open>The promise is rejected with the FetchError of type request-timeout.\<close>

definition timed_out :: "settlement \<Rightarrow> bool" where
  "timed_out p =
     (case p of
        Rejected (FetchError m k) t \<Rightarrow> k = ''request-timeout''
      | _ \<Rightarrow> False)"

text \<open>
  The request of the follow-up call for a response that is followed: the argument of the
  recursive call of fetch in the follow case.
\<close>

definition follow_up :: "env \<Rightarrow> request \<Rightarrow> IncomingMessage \<Rightarrow> request" where
  "follow_up env rq res =
     Request_new
       (resolve_url env (request.url rq)
          (case Headers_get (IncomingMessage.headers res) ''Location'' of
             None \<Rightarrow> []
           | Some location \<Rightarrow> location))
       (step11 (statusCode res) rq (requestOpts_of rq))"

text \<open>The events of a call that receives its response and nothing else.\<close>

definition hop :: "millis \<times> IncomingMessage \<Rightarrow> (millis \<times> event) list" where
  "hop tr = [(fst tr, EvResponse (snd tr))]"

section \<open>Sample values\<close>

text \<open>
  Concrete collaborators, requests and responses on which the properties below are
  evaluated. \<open>sample_env\<close> resolves for bases of the form \<^verbatim>\<open>http://h/...\<close> without a
  query: a relative URL that starts with a slash replaces the path of the base (\<^verbatim>\<open>/x\<close>
  against \<^verbatim>\<open>http://h/a\<close> is \<^verbatim>\<open>http://h/x\<close>), one that starts with a question mark is
  put after the base, any other is taken as it is. A header value is legal when each of
  its characters is a tab or has a code from 0x20 on other than 0x7F.
\<close>

definition sample_env :: env where
  "sample_env =
     \<lparr>resolve_url = (\<lambda>base relative.
                       case relative of
                         CHR ''/'' # path \<Rightarrow> take 8 base @ relative
                       | CHR ''?'' # query \<Rightarrow> base @ relative
                       | _ \<Rightarrow> relative),
      legal_value = list_all (\<lambda>c. c = CHR 0x09 \<or>
                                   (32 \<le> (of_char c :: nat) \<and> (of_char c :: nat) \<noteq> 127)),
      STATUS_CODES = (\<lambda>code. if code = 200 then Some ''OK'' else if code = 302 then Some ''Found'' else None),
      extractContentType = (\<lambda>stream. None)\<rparr>"

definition sample_post :: request where
  "sample_post =
     \<lparr>request.url = ''http://h/a'', method = ''POST'',
      headers = [(''content-length'', [''3'']), (''accept'', [''*/*''])],
      body = Some (FixedLength [1, 2, 3]), redirect = ''follow'', follow = 2, counter = 0,
      compress = True, timeout = 5000, size = 0, agent = None, signal = Some False\<rparr>"

definition sample_redirect :: "nat \<Rightarrow> IncomingMessage" where
  "sample_redirect code =
     \<lparr>statusCode = code, statusMessage = ''Redirect'', headers = [(''location'', [''/x''])]\<rparr>"

definition sample_timings :: timings where
  "sample_timings = empty_timings\<lparr>dnsLookupTime := Some ''1.25'', totalTime := Some ''20.00''\<rparr>"

definition sample_options :: response_options where
  "sample_options =
     \<lparr>response_options.url = Some ''http://h/a'', status = Some 200, statusText = Some ''OK'',
      headers = Some [(''content-encoding'', [''gzip''])], remoteAddress = None,
      size = Some 0, timeout = Some 0\<rparr>"

definition sample_stream_put :: request where
  "sample_stream_put = sample_post\<lparr>request.method := ''PUT'', request.body := Some Readable\<rparr>"

definition sample_plain_redirect :: IncomingMessage where
  "sample_plain_redirect = \<lparr>statusCode = 301, statusMessage = ''Moved'', headers = []\<rparr>"

definition sample_get :: request where
  "sample_get =
     \<lparr>request.url = ''http://h/a'', method = ''GET'', headers = [(''accept'', [''*/*''])],
      body = None, redirect = ''follow'', follow = 2, counter = 0, compress = True,
      timeout = 5000, size = 0, agent = None, signal = Some False\<rparr>"

definition sample_ok :: "string \<Rightarrow> IncomingMessage" where
  "sample_ok coding =
     \<lparr>statusCode = 200, statusMessage = ''OK'', headers = [(''content-encoding'', [coding])]\<rparr>"

definition sample_connecting :: "(millis \<times> event) list" where
  "sample_connecting = [(''1.00'', EvSocket), (''2.50'', EvLookup)]"

definition sample_streaming :: "(millis \<times> event) list" where
  "sample_streaming = [(''1.00'', EvSocket), (''9.00'', EvResponse (sample_ok ''gzip''))]"

definition sample_manual :: request where
  "sample_manual = sample_get\<lparr>request.redirect := ''manual''\<rparr>"

text \<open>
  A request in manual mode whose URL has the character 0x7F in its path, and a redirect
  to a query on the same path with a deflate body: the Location is a legal header value,
  the URL it resolves to is not.
\<close>

definition sample_del :: request where
  "sample_del = sample_manual\<lparr>request.url := ''http://h/a'' @ [CHR 0x7F]\<rparr>"

definition sample_query_redirect :: IncomingMessage where
  "sample_query_redirect =
     \<lparr>statusCode = 302, statusMessage = ''Found'',
      headers = [(''location'', [''?q'']), (''content-encoding'', [''deflate''])]\<rparr>"

definition sample_second :: request where
  "sample_second =
     \<lparr>request.url = ''http://h/x'', method = ''GET'', headers = [(''accept'', [''*/*''])],
      body = None, redirect = ''follow'', follow = 2, counter = 1, compress = True,
      timeout = 0, size = 0, agent = None, signal = Some False\<rparr>"

definition sample_chain :: "nat \<Rightarrow> (millis \<times> IncomingMessage) list" where
  "sample_chain n = replicate n (''2.00'', sample_redirect 302)"

definition sample_final :: "(millis \<times> event) list list" where
  "sample_final = [[(''1.00'', EvSocket), (''3.00'', EvResponse (sample_ok ''br''))]]"

definition sample_waiting :: "(millis \<times> event) list" where
  "sample_waiting = [(''1.00'', EvSocket), (''2.00'', EvResponse sample_query_redirect)]"

section \<open>Properties\<close>

subsection \<open>The promise under the helpers of the executor\<close>

lemma share_Forwarded: "(share t p = Forwarded q) = (p = Forwarded q)"
  by (cases p) (simp_all add: share_def)

lemma share_Pending: "(share t p = Pending) = (p = Pending)"
  by (cases p) (simp_all add: share_def)

lemma promise_write_timings: "promise (write_timings f s) = share (f (dispatch.timings s)) (promise s)"
  by (simp add: write_timings_def Let_def)

lemma promise_finalize: "promise (finalize rq s) = promise s"
  by (simp add: finalize_def Let_def)

lemma promise_reject:
  "promise (reject e s) = (if promise s = Pending then Rejected e (dispatch.timings s) else promise s)"
  by (simp add: reject_def)

lemma promise_resolve:
  "promise (resolve now v s) =
     (if promise s = Pending then share ((dispatch.timings s)\<lparr>totalTime := Some now\<rparr>) v
      else share ((dispatch.timings s)\<lparr>totalTime := Some now\<rparr>) (promise s))"
  by (simp add: resolve_def Let_def promise_write_timings share_Pending write_timings_def)

lemma promise_deliver:
  "promise (deliver env now b opts s) =
     (if promise s = Pending
      then Fulfilled ((Response_new (STATUS_CODES env) (extractContentType env) (Some b) opts
             (Some (dispatch.timings s)))\<lparr>Response.timings := (dispatch.timings s)\<lparr>totalTime := Some now\<rparr>\<rparr>)
      else share ((dispatch.timings s)\<lparr>totalTime := Some now\<rparr>) (promise s))"
  by (simp add: deliver_def Let_def promise_resolve share_def)

lemma promise_prepare_response:
  "promise s \<noteq> Pending \<Longrightarrow>
   promise (prepare_response env rq now res hs s) = promise s \<or>
   promise (prepare_response env rq now res hs s) = share ((dispatch.timings s)\<lparr>totalTime := Some now\<rparr>) (promise s)"
  by (simp add: prepare_response_def Let_def promise_deliver)

lemma prepare_response_Pending:
  "promise s = Pending \<Longrightarrow>
   promise (prepare_response env rq now res hs s) = Pending \<or>
   (\<exists>r. promise (prepare_response env rq now res hs s) = Fulfilled r)"
  by (simp add: prepare_response_def Let_def promise_deliver)

lemma prepare_response_not_Forwarded:
  "promise s = Pending \<or> (\<exists>e t. promise s = Rejected e t) \<Longrightarrow>
   promise (prepare_response env rq now res hs s) \<noteq> Forwarded q"
  by (auto simp add: prepare_response_def Let_def promise_deliver share_def)

lemma prepare_response_not_FetchError:
  "promise s = Pending \<or> (\<exists>v t. promise s = Rejected (HeaderCorruptionError v) t) \<Longrightarrow>
   promise (prepare_response env rq now res hs s) \<noteq> Rejected (FetchError m k) t'"
  by (auto simp add: prepare_response_def Let_def promise_deliver share_def)

lemma on_response_follow:
  assumes "request.redirect rq = ''follow''" "isRedirect (statusCode res)"
    "Headers_get (IncomingMessage.headers res) ''Location'' = Some loc"
    "request.counter rq < request.follow rq" "promise s = Pending"
  shows "promise (on_response env rq now res s) =
     (if statusCode res \<noteq> 303 \<and> request.body rq \<noteq> None \<and> getTotalBytes rq = None
      then Rejected (FetchError ''Cannot follow redirect with body being a readable stream''
                       ''unsupported-redirect'') (dispatch.timings s)
      else Forwarded (Request_new (resolve_url env (request.url rq) loc)
                        (step11 (statusCode res) rq (requestOpts_of rq))))"
  using assms
  by (simp add: on_response_def Let_def promise_finalize promise_reject promise_resolve share_def)

lemma on_response_Forwarded:
  assumes "promise s = Pending" "promise (on_response env rq now res s) = Forwarded rq'"
  shows "request.redirect rq = ''follow'' \<and> isRedirect (statusCode res) \<and>
     request.counter rq < request.follow rq \<and>
     \<not> (statusCode res \<noteq> 303 \<and> request.body rq \<noteq> None \<and> getTotalBytes rq = None) \<and>
     (\<exists>loc. Headers_get (IncomingMessage.headers res) ''Location'' = Some loc \<and>
        rq' = Request_new (resolve_url env (request.url rq) loc)
                (step11 (statusCode res) rq (requestOpts_of rq)))"
proof -
  have np: "\<And>hs s'. promise s' = Pending \<or> (\<exists>e t. promise s' = Rejected e t) \<Longrightarrow>
     promise (prepare_response env rq now res hs s') \<noteq> Forwarded rq'"
    by (rule prepare_response_not_Forwarded)
  have p0: "promise (s\<lparr>reqTimeout := False\<rparr>) = Pending" using assms(1) by simp
  show ?thesis
  proof (cases "isRedirect (statusCode res)")
    case False
    with assms(2) np[of "s\<lparr>reqTimeout := False\<rparr>"] p0 show ?thesis
      by (simp add: on_response_def Let_def)
  next
    case red: True
    show ?thesis
    proof (cases "request.redirect rq = ''follow''")
      case True
      show ?thesis
      proof (cases "Headers_get (IncomingMessage.headers res) ''Location''")
        case None
        with assms(2) red True np[of "s\<lparr>reqTimeout := False\<rparr>"] p0 show ?thesis
          by (simp add: on_response_def Let_def)
      next
        case (Some loc)
        with assms red True show ?thesis
          by (auto simp add: on_response_def Let_def promise_finalize promise_reject promise_resolve
              share_def split: if_splits)
      qed
    next
      case False
      have rj: "promise (reject e (s\<lparr>reqTimeout := False\<rparr>)) = Rejected e (dispatch.timings s)" for e
        using assms(1) by (simp add: promise_reject)
      from assms(2) red False np p0 rj show ?thesis
        by (auto simp add: on_response_def Let_def promise_finalize 
            split: if_splits option.splits sum.splits)
    qed
  qed
qed

subsection \<open>The follow-up request\<close>

lemma lower_content_length: "lower ''content-length'' = ''content-length''"
  by (simp add: lower_def lower_char_def)

lemma Headers_delete_absent:
  "lower name = lower deleted \<Longrightarrow>
   \<not> Headers_has (Headers_delete h deleted) name \<and> Headers_get (Headers_delete h deleted) name = None"
  by (simp add: Headers_has_def Headers_get_def Headers_delete_def delete_conv)

text \<open>
  C1: in a call whose promise is pending, the response handler resolves with a follow-up
  call in follow mode, on a redirect status with a Location header, within the hop bound
  (when the body can be sent again or the status is 303), and in no other case. The
  follow-up request then has method GET, no body and no content-length header if the
  status is 303, or 301 or 302 after a POST; in every other case it keeps method and
  body. The same holds of the options that the handler builds for the follow-up request,
  whether the call is made or not.
\<close>

theorem redirect_rewrite:
  assumes "promise s = Pending"
  shows "(request.redirect rq = ''follow'' \<and> isRedirect (statusCode res) \<and>
          Headers_get (IncomingMessage.headers res) ''Location'' \<noteq> None \<and>
          request.counter rq < request.follow rq \<and>
          (statusCode res = 303 \<or> request.body rq = None \<or> getTotalBytes rq \<noteq> None)
          \<longrightarrow> (\<exists>rq'. promise (on_response env rq now res s) = Forwarded rq')) \<and>
         (\<forall>rq'. promise (on_response env rq now res s) = Forwarded rq' \<longrightarrow>
            request.redirect rq = ''follow'' \<and> isRedirect (statusCode res) \<and>
            Headers_get (IncomingMessage.headers res) ''Location'' \<noteq> None \<and>
            request.counter rq < request.follow rq \<and>
            (if statusCode res = 303 \<or>
                ((statusCode res = 301 \<or> statusCode res = 302) \<and> request.method rq = ''POST'')
             then request.method rq' = ''GET'' \<and> request.body rq' = None \<and>
                  (\<forall>name. lower name = ''content-length'' \<longrightarrow>
                     \<not> Headers_has (request.headers rq') name \<and>
                     Headers_get (request.headers rq') name = None)
             else request.method rq' = request.method rq \<and> request.body rq' = request.body rq)) \<and>
         (if statusCode res = 303 \<or>
             ((statusCode res = 301 \<or> statusCode res = 302) \<and> request.method rq = ''POST'')
          then requestOpts.method (step11 (statusCode res) rq (requestOpts_of rq)) = ''GET'' \<and>
               requestOpts.body (step11 (statusCode res) rq (requestOpts_of rq)) = None \<and>
               (\<forall>name. lower name = ''content-length'' \<longrightarrow>
                  \<not> Headers_has (requestOpts.headers (step11 (statusCode res) rq (requestOpts_of rq)))
                       name)
          else requestOpts.method (step11 (statusCode res) rq (requestOpts_of rq)) =
                 request.method rq \<and>
               requestOpts.body (step11 (statusCode res) rq (requestOpts_of rq)) =
                 request.body rq)"
proof (intro conjI allI impI)
  assume a: "request.redirect rq = ''follow'' \<and> isRedirect (statusCode res) \<and>
          Headers_get (IncomingMessage.headers res) ''Location'' \<noteq> None \<and>
          request.counter rq < request.follow rq \<and>
          (statusCode res = 303 \<or> request.body rq = None \<or> getTotalBytes rq \<noteq> None)"
  then obtain loc where "Headers_get (IncomingMessage.headers res) ''Location'' = Some loc"
    by blast
  with a assms on_response_follow[of rq res loc s env now]
  show "\<exists>rq'. promise (on_response env rq now res s) = Forwarded rq'"
    by auto
next
  fix rq'
  assume f: "promise (on_response env rq now res s) = Forwarded rq'"
  note c = on_response_Forwarded[OF assms f]
  then obtain loc where
    rq': "rq' = Request_new (resolve_url env (request.url rq) loc)
                  (step11 (statusCode res) rq (requestOpts_of rq))"
    by blast
  from c show "request.redirect rq = ''follow''" by blast
  from c show "isRedirect (statusCode res)" by blast
  from c show "Headers_get (IncomingMessage.headers res) ''Location'' \<noteq> None" by auto
  from c show "request.counter rq < request.follow rq" by blast
  show "if statusCode res = 303 \<or>
                ((statusCode res = 301 \<or> statusCode res = 302) \<and> request.method rq = ''POST'')
             then request.method rq' = ''GET'' \<and> request.body rq' = None \<and>
                  (\<forall>name. lower name = ''content-length'' \<longrightarrow>
                     \<not> Headers_has (request.headers rq') name \<and>
                     Headers_get (request.headers rq') name = None)
             else request.method rq' = request.method rq \<and> request.body rq' = request.body rq"
    unfolding rq'
    using Headers_delete_absent[of _ "''content-length''"]
    by (simp add: Request_new_def step11_def requestOpts_of_def lower_content_length)
next
  show "if statusCode res = 303 \<or>
             ((statusCode res = 301 \<or> statusCode res = 302) \<and> request.method rq = ''POST'')
          then requestOpts.method (step11 (statusCode res) rq (requestOpts_of rq)) = ''GET'' \<and>
               requestOpts.body (step11 (statusCode res) rq (requestOpts_of rq)) = None \<and>
               (\<forall>name. lower name = ''content-length'' \<longrightarrow>
                  \<not> Headers_has (requestOpts.headers (step11 (statusCode res) rq (requestOpts_of rq)))
                       name)
          else requestOpts.method (step11 (statusCode res) rq (requestOpts_of rq)) =
                 request.method rq \<and>
               requestOpts.body (step11 (statusCode res) rq (requestOpts_of rq)) =
                 request.body rq"
    using Headers_delete_absent[of _ "''content-length''"]
    by (simp add: step11_def requestOpts_of_def lower_content_length)
qed

theorem redirect_rewrite_witness:
  "promise (start sample_post) = Pending \<and>
   promise (on_response sample_env sample_post ''12.50'' (sample_redirect 302) (start sample_post)) =
     Forwarded
       \<lparr>request.url = ''http://h/x'', method = ''GET'', headers = [(''accept'', [''*/*''])],
        body = None, redirect = ''follow'', follow = 2, counter = 1, compress = True,
        timeout = 0, size = 0, agent = None, signal = Some False\<rparr> \<and>
   promise (on_response sample_env (sample_post\<lparr>request.method := ''PUT''\<rparr>) ''12.50''
              (sample_redirect 307) (start sample_post)) =
     Forwarded
       \<lparr>request.url = ''http://h/x'', method = ''PUT'',
        headers = [(''content-length'', [''3'']), (''accept'', [''*/*''])],
        body = Some (FixedLength [1, 2, 3]), redirect = ''follow'', follow = 2, counter = 1,
        compress = True, timeout = 0, size = 0, agent = None, signal = Some False\<rparr>"
proof -
  have p: "promise (start sample_post) = Pending"
    by (simp add: start_def sample_post_def initial_def)
  have f1: "promise (on_response sample_env sample_post ''12.50'' (sample_redirect 302) (start sample_post)) =
     Forwarded
       \<lparr>request.url = ''http://h/x'', method = ''GET'', headers = [(''accept'', [''*/*''])],
        body = None, redirect = ''follow'', follow = 2, counter = 1, compress = True,
        timeout = 0, size = 0, agent = None, signal = Some False\<rparr>"
    by code_simp
  have f2: "promise (on_response sample_env (sample_post\<lparr>request.method := ''PUT''\<rparr>) ''12.50''
              (sample_redirect 307) (start sample_post)) =
     Forwarded
       \<lparr>request.url = ''http://h/x'', method = ''PUT'',
        headers = [(''content-length'', [''3'']), (''accept'', [''*/*''])],
        body = Some (FixedLength [1, 2, 3]), redirect = ''follow'', follow = 2, counter = 1,
        compress = True, timeout = 0, size = 0, agent = None, signal = Some False\<rparr>"
    by code_simp
  from redirect_rewrite[OF p, of sample_post "sample_redirect 302" sample_env "''12.50''"]
    p f1 f2 show ?thesis by blast
qed

subsection \<open>Response.clone\<close>

lemma Headers_has_append: "Headers_has (Headers_append h name v) name"
  by (simp add: Headers_has_def Headers_append_def update_conv' split: option.splits)

lemma Response_new_Content_Type:
  assumes "r = Response_new sc ect (Some b0) opts t" "truthy (ect b0)"
  shows "Headers_has (Response.headers r) ''Content-Type''"
  using assms Headers_has_append
  by (auto simp add: Response_new_def Let_def truthy_def split: option.splits)

text \<open>
  C10: the copy that \<open>clone\<close> makes of a Response has the url, status, statusText and
  headers of the original, and its timings are the empty record whatever timings the
  original was built with: \<open>clone\<close> passes no third argument to the constructor. The
  body helpers are parameters; what is assumed of them is that the body of the copy has a
  content type only if the body of the original has one.
\<close>

theorem clone_frame:
  fixes r :: "'b Response"
  assumes r: "r = Response_new sc ect b opts t"
    and ct: "\<And>b'. cb r = Some b' \<Longrightarrow> truthy (ect b') \<Longrightarrow>
               (\<exists>b0. Response.body r = Some b0 \<and> truthy (ect b0))"
  shows "Response.url (clone sc ect cb r) = Response.url r \<and>
         Response.status (clone sc ect cb r) = Response.status r \<and>
         Response.statusText (clone sc ect cb r) = Response.statusText r \<and>
         Response.headers (clone sc ect cb r) = Response.headers r \<and>
         Response.timings (clone sc ect cb r) = empty_timings"
proof -
  have bd: "Response.body r = b"
    unfolding r by (simp add: Response_new_def Let_def)
  have st: "Response.status r \<noteq> 0"
    unfolding r by (simp add: Response_new_def Let_def split: option.splits)
  have stx: "\<not> truthy (Response.statusText r) \<Longrightarrow> Response.statusText r = sc (Response.status r)"
    unfolding r by (simp add: Response_new_def Let_def split: if_splits)
  have u: "Response.url (clone sc ect cb r) = Response.url r"
    by (simp add: clone_def Response_new_def Let_def)
  have s: "Response.status (clone sc ect cb r) = Response.status r"
    using st by (simp add: clone_def Response_new_def Let_def)
  have x: "Response.statusText (clone sc ect cb r) = Response.statusText r"
    using st stx by (simp add: clone_def Response_new_def Let_def)
  have h: "Response.headers (clone sc ect cb r) = Response.headers r"
  proof (cases "cb r")
    case None
    then show ?thesis by (simp add: clone_def Response_new_def Let_def)
  next
    case (Some b')
    show ?thesis
    proof (cases "Headers_has (Response.headers r) ''Content-Type''")
      case True
      then show ?thesis using Some by (simp add: clone_def Response_new_def Let_def)
    next
      case False
      have "\<not> truthy (ect b')"
      proof
        assume "truthy (ect b')"
        from ct[OF Some this] obtain b0 where b0: "Response.body r = Some b0" "truthy (ect b0)"
          by blast
        with bd have "r = Response_new sc ect (Some b0) opts t" using r by simp
        from Response_new_Content_Type[OF this b0(2)] False show False by simp
      qed
      then show ?thesis using Some False
        by (simp add: clone_def Response_new_def Let_def truthy_def split: option.splits)
    qed
  qed
  have t: "Response.timings (clone sc ect cb r) = empty_timings"
    by (simp add: clone_def Response_new_def Let_def)
  from u s x h t show ?thesis by blast
qed

theorem clone_frame_witness:
  "Response.timings (Response_new (STATUS_CODES sample_env) (extractContentType sample_env)
      (Some Gunzip) sample_options (Some sample_timings)) = sample_timings \<and>
   sample_timings \<noteq> empty_timings \<and>
   Response.url (clone (STATUS_CODES sample_env) (extractContentType sample_env) Response.body
     (Response_new (STATUS_CODES sample_env) (extractContentType sample_env)
        (Some Gunzip) sample_options (Some sample_timings))) = Some ''http://h/a'' \<and>
   Response.status (clone (STATUS_CODES sample_env) (extractContentType sample_env) Response.body
     (Response_new (STATUS_CODES sample_env) (extractContentType sample_env)
        (Some Gunzip) sample_options (Some sample_timings))) = 200 \<and>
   Response.statusText (clone (STATUS_CODES sample_env) (extractContentType sample_env) Response.body
     (Response_new (STATUS_CODES sample_env) (extractContentType sample_env)
        (Some Gunzip) sample_options (Some sample_timings))) = Some ''OK'' \<and>
   Response.headers (clone (STATUS_CODES sample_env) (extractContentType sample_env) Response.body
     (Response_new (STATUS_CODES sample_env) (extractContentType sample_env)
        (Some Gunzip) sample_options (Some sample_timings))) = [(''content-encoding'', [''gzip''])] \<and>
   Response.timings (clone (STATUS_CODES sample_env) (extractContentType sample_env) Response.body
     (Response_new (STATUS_CODES sample_env) (extractContentType sample_env)
        (Some Gunzip) sample_options (Some sample_timings))) = empty_timings"
proof -
  let ?r = "Response_new (STATUS_CODES sample_env) (extractContentType sample_env)
      (Some Gunzip) sample_options (Some sample_timings)"
  have ect: "\<And>b'. \<not> truthy (extractContentType sample_env b')"
    by (simp add: sample_env_def truthy_def)
  have r: "?r = \<lparr>Response.url = Some ''http://h/a'', status = 200, statusText = Some ''OK'',
      headers = [(''content-encoding'', [''gzip''])], timings = sample_timings,
      remoteAddress = None, body = Some Gunzip\<rparr>"
    by code_simp
  have ne: "sample_timings \<noteq> empty_timings"
    by (simp add: sample_timings_def empty_timings_def)
  from clone_frame[of ?r "STATUS_CODES sample_env" "extractContentType sample_env" "Some Gunzip"
      sample_options "Some sample_timings" Response.body] ect
  have "Response.url (clone (STATUS_CODES sample_env) (extractContentType sample_env) Response.body ?r) = Response.url ?r \<and>
         Response.status (clone (STATUS_CODES sample_env) (extractContentType sample_env) Response.body ?r) = Response.status ?r \<and>
         Response.statusText (clone (STATUS_CODES sample_env) (extractContentType sample_env) Response.body ?r) = Response.statusText ?r \<and>
         Response.headers (clone (STATUS_CODES sample_env) (extractContentType sample_env) Response.body ?r) = Response.headers ?r \<and>
         Response.timings (clone (STATUS_CODES sample_env) (extractContentType sample_env) Response.body ?r) = empty_timings"
    by blast
  with r ne show ?thesis by simp
qed

subsection \<open>Redirect mode error\<close>

lemma on_response_error_mode:
  assumes "request.redirect rq = ''error''" "isRedirect (statusCode res)"
  shows "on_response env rq now res s =
     finalize rq (reject (FetchError (''redirect mode is set to error: '' @ request.url rq)
                            ''no-redirect'') (s\<lparr>reqTimeout := False\<rparr>))"
  using assms by (simp add: on_response_def Let_def)

text \<open>
  C9: in redirect mode error, a response with a redirect status rejects the pending
  promise at once with the FetchError of type no-redirect, whatever the headers of the
  response are (a Location header or none); the request is torn down and no follow-up
  call is made.
\<close>

theorem error_mode_rejects:
  assumes "request.redirect rq = ''error''" "isRedirect (statusCode res)" "promise s = Pending"
  shows "promise (on_response env rq now res s) =
           Rejected (FetchError (''redirect mode is set to error: '' @ request.url rq) ''no-redirect'')
             (dispatch.timings s) \<and>
         (\<forall>rq'. promise (on_response env rq now res s) \<noteq> Forwarded rq') \<and>
         response (on_response env rq now res s) = response s \<and>
         raw_once (on_response env rq now res s) = raw_once s \<and>
         req_aborted (on_response env rq now res s) \<and>
         \<not> reqTimeout (on_response env rq now res s) \<and>
         (request.signal rq \<noteq> None \<longrightarrow> \<not> abort_listener (on_response env rq now res s))"
  using assms(3)
  by (simp add: on_response_error_mode[OF assms(1,2)] finalize_def reject_def Let_def)

theorem error_mode_rejects_witness:
  "request.redirect (sample_post\<lparr>request.redirect := ''error''\<rparr>) = ''error'' \<and>
   isRedirect (statusCode (sample_redirect 302)) \<and>
   isRedirect (statusCode sample_plain_redirect) \<and>
   Headers_get (IncomingMessage.headers (sample_redirect 302)) ''Location'' = Some ''/x'' \<and>
   Headers_get (IncomingMessage.headers sample_plain_redirect) ''Location'' = None \<and>
   promise (start sample_post) = Pending \<and>
   promise (on_response sample_env (sample_post\<lparr>request.redirect := ''error''\<rparr>) ''3.10''
              (sample_redirect 302) (start sample_post)) =
     Rejected (FetchError ''redirect mode is set to error: http://h/a'' ''no-redirect'') empty_timings \<and>
   promise (on_response sample_env (sample_post\<lparr>request.redirect := ''error''\<rparr>) ''3.10''
              sample_plain_redirect (start sample_post)) =
     Rejected (FetchError ''redirect mode is set to error: http://h/a'' ''no-redirect'') empty_timings"
proof -
  have m: "request.redirect (sample_post\<lparr>request.redirect := ''error''\<rparr>) = ''error''" by simp
  have r1: "isRedirect (statusCode (sample_redirect 302))"
    by (simp add: isRedirect_def sample_redirect_def)
  have r2: "isRedirect (statusCode sample_plain_redirect)"
    by (simp add: isRedirect_def sample_plain_redirect_def)
  have l1: "Headers_get (IncomingMessage.headers (sample_redirect 302)) ''Location'' = Some ''/x''"
    by code_simp
  have l2: "Headers_get (IncomingMessage.headers sample_plain_redirect) ''Location'' = None"
    by code_simp
  have p: "promise (start sample_post) = Pending"
    by (simp add: start_def sample_post_def initial_def)
  have t: "dispatch.timings (start sample_post) = empty_timings"
    by (simp add: start_def sample_post_def initial_def)
  have u: "request.url (sample_post\<lparr>request.redirect := ''error''\<rparr>) = ''http://h/a''"
    by (simp add: sample_post_def)
  from error_mode_rejects[OF m r1 p, of sample_env "''3.10''"]
       error_mode_rejects[OF m r2 p, of sample_env "''3.10''"] m r1 r2 l1 l2 p t u
  show ?thesis by simp
qed

subsection \<open>A body that cannot be sent again\<close>

text \<open>
  C8: in follow mode, on a redirect status with a Location header and within the hop
  bound, a status other than 303 with a body of unknown total size rejects with the
  FetchError of type unsupported-redirect and tears down, and there is no follow-up call;
  with status 303, or no body, or a body of known size, the follow-up call is made. The
  handler raises this error in no other case.
\<close>

theorem unsupported_redirect:
  assumes "promise s = Pending"
  shows "(request.redirect rq = ''follow'' \<and> isRedirect (statusCode res) \<and>
          Headers_get (IncomingMessage.headers res) ''Location'' \<noteq> None \<and>
          request.counter rq < request.follow rq \<longrightarrow>
            (if statusCode res \<noteq> 303 \<and> request.body rq \<noteq> None \<and> getTotalBytes rq = None
             then promise (on_response env rq now res s) =
                    Rejected (FetchError ''Cannot follow redirect with body being a readable stream''
                                ''unsupported-redirect'') (dispatch.timings s) \<and>
                  req_aborted (on_response env rq now res s)
             else (\<exists>rq'. promise (on_response env rq now res s) = Forwarded rq'))) \<and>
         (\<forall>m t. promise (on_response env rq now res s) = Rejected (FetchError m ''unsupported-redirect'') t
            \<longrightarrow> statusCode res \<noteq> 303 \<and> request.body rq = Some Readable \<and> getTotalBytes rq = None \<and>
                (\<forall>rq'. promise (on_response env rq now res s) \<noteq> Forwarded rq'))"
proof (intro conjI allI impI)
  assume a: "request.redirect rq = ''follow'' \<and> isRedirect (statusCode res) \<and>
          Headers_get (IncomingMessage.headers res) ''Location'' \<noteq> None \<and>
          request.counter rq < request.follow rq"
  then obtain loc where l: "Headers_get (IncomingMessage.headers res) ''Location'' = Some loc"
    by blast
  have ab: "statusCode res \<noteq> 303 \<and> request.body rq \<noteq> None \<and> getTotalBytes rq = None \<Longrightarrow>
     req_aborted (on_response env rq now res s)"
    using a l by (simp add: on_response_def Let_def finalize_def)
  from a l assms on_response_follow[of rq res loc s env now] ab
  show "if statusCode res \<noteq> 303 \<and> request.body rq \<noteq> None \<and> getTotalBytes rq = None
             then promise (on_response env rq now res s) =
                    Rejected (FetchError ''Cannot follow redirect with body being a readable stream''
                                ''unsupported-redirect'') (dispatch.timings s) \<and>
                  req_aborted (on_response env rq now res s)
             else (\<exists>rq'. promise (on_response env rq now res s) = Forwarded rq')"
    by auto
next
  fix m t
  assume r: "promise (on_response env rq now res s) = Rejected (FetchError m ''unsupported-redirect'') t"
  have np: "\<And>hs s'. promise s' = Pending \<or> (\<exists>v t. promise s' = Rejected (HeaderCorruptionError v) t) \<Longrightarrow>
     promise (prepare_response env rq now res hs s') \<noteq> Rejected (FetchError m ''unsupported-redirect'') t"
    by (rule prepare_response_not_FetchError)
  have p0: "promise (s\<lparr>reqTimeout := False\<rparr>) = Pending" using assms by simp
  have rj: "promise (reject e (s\<lparr>reqTimeout := False\<rparr>)) = Rejected e (dispatch.timings s)" for e
    using assms by (simp add: promise_reject)
  have hc: "Headers_set lg hs n v = Inl e \<Longrightarrow> \<exists>w. e = HeaderCorruptionError w" for lg hs n v e
    by (auto simp add: Headers_set_def split: if_splits)
  have c: "statusCode res \<noteq> 303 \<and> request.body rq \<noteq> None \<and> getTotalBytes rq = None"
    using r np[of "s\<lparr>reqTimeout := False\<rparr>"] p0 rj
    apply (simp add: on_response_def Let_def promise_finalize promise_resolve share_def
        split: if_splits option.splits sum.splits)
    using hc np apply blast
    done
  then show "statusCode res \<noteq> 303" by blast
  from c show "getTotalBytes rq = None" by blast
  from c show "request.body rq = Some Readable"
    by (auto simp add: getTotalBytes_def split: option.splits body_source.splits)
  show "promise (on_response env rq now res s) \<noteq> Forwarded rq'" for rq'
    using r by simp
qed

theorem unsupported_redirect_witness:
  "promise (start sample_stream_put) = Pending \<and>
   request.body sample_stream_put = Some Readable \<and>
   promise (on_response sample_env sample_stream_put ''4.00'' (sample_redirect 307)
              (start sample_stream_put)) =
     Rejected (FetchError ''Cannot follow redirect with body being a readable stream''
                 ''unsupported-redirect'') empty_timings \<and>
   promise (on_response sample_env sample_stream_put ''4.00'' (sample_redirect 303)
              (start sample_stream_put)) =
     Forwarded
       \<lparr>request.url = ''http://h/x'', method = ''GET'', headers = [(''accept'', [''*/*''])],
        body = None, redirect = ''follow'', follow = 2, counter = 1, compress = True,
        timeout = 0, size = 0, agent = None, signal = Some False\<rparr> \<and>
   promise (on_response sample_env (sample_post\<lparr>request.method := ''PUT''\<rparr>) ''4.00''
              (sample_redirect 307) (start sample_stream_put)) =
     Forwarded
       \<lparr>request.url = ''http://h/x'', method = ''PUT'',
        headers = [(''content-length'', [''3'']), (''accept'', [''*/*''])],
        body = Some (FixedLength [1, 2, 3]), redirect = ''follow'', follow = 2, counter = 1,
        compress = True, timeout = 0, size = 0, agent = None, signal = Some False\<rparr>"
proof -
  have p: "promise (start sample_stream_put) = Pending"
    by (simp add: start_def sample_stream_put_def sample_post_def initial_def)
  have t: "dispatch.timings (start sample_stream_put) = empty_timings"
    by (simp add: start_def sample_stream_put_def sample_post_def initial_def)
  have b: "request.body sample_stream_put = Some Readable"
    by (simp add: sample_stream_put_def)
  have c: "request.redirect sample_stream_put = ''follow'' \<and>
      isRedirect (statusCode (sample_redirect 307)) \<and>
      Headers_get (IncomingMessage.headers (sample_redirect 307)) ''Location'' \<noteq> None \<and>
      request.counter sample_stream_put < request.follow sample_stream_put \<and>
      statusCode (sample_redirect 307) \<noteq> 303 \<and> getTotalBytes sample_stream_put = None"
    by code_simp
  have f1: "promise (on_response sample_env sample_stream_put ''4.00'' (sample_redirect 303)
              (start sample_stream_put)) =
     Forwarded
       \<lparr>request.url = ''http://h/x'', method = ''GET'', headers = [(''accept'', [''*/*''])],
        body = None, redirect = ''follow'', follow = 2, counter = 1, compress = True,
        timeout = 0, size = 0, agent = None, signal = Some False\<rparr>"
    by code_simp
  have f2: "promise (on_response sample_env (sample_post\<lparr>request.method := ''PUT''\<rparr>) ''4.00''
              (sample_redirect 307) (start sample_stream_put)) =
     Forwarded
       \<lparr>request.url = ''http://h/x'', method = ''PUT'',
        headers = [(''content-length'', [''3'']), (''accept'', [''*/*''])],
        body = Some (FixedLength [1, 2, 3]), redirect = ''follow'', follow = 2, counter = 1,
        compress = True, timeout = 0, size = 0, agent = None, signal = Some False\<rparr>"
    by code_simp
  from unsupported_redirect[OF p, of sample_stream_put "sample_redirect 307" sample_env "''4.00''"]
    c b t
  have "promise (on_response sample_env sample_stream_put ''4.00'' (sample_redirect 307)
              (start sample_stream_put)) =
     Rejected (FetchError ''Cannot follow redirect with body being a readable stream''
                 ''unsupported-redirect'') empty_timings"
    by simp
  with p b f1 f2 show ?thesis by simp
qed

subsection \<open>The body handling\<close>

lemma lower_names:
  "lower ''Location'' = ''location''" "lower ''Content-Encoding'' = ''content-encoding''"
  "lower ''Content-Type'' = ''content-type''"
  by (simp_all add: lower_def lower_char_def)

lemma Headers_get_set_other:
  "Headers_set legal hs name v = Inr hs' \<Longrightarrow> lower other \<noteq> lower name \<Longrightarrow>
   Headers_get hs' other = Headers_get hs other"
  by (auto simp add: Headers_set_def Headers_get_def update_conv' split: if_splits)

lemma Headers_get_set_same:
  "Headers_set legal hs name v = Inr hs' \<Longrightarrow> Headers_get hs' name = Some v"
  by (auto simp add: Headers_set_def Headers_get_def update_conv' split: if_splits)

lemma Headers_get_append_other:
  "lower other \<noteq> lower name \<Longrightarrow> Headers_get (Headers_append hs name v) other = Headers_get hs other"
  by (simp add: Headers_append_def Headers_get_def update_conv' split: option.splits)

lemma on_response_terminal:
  assumes "terminal rq res"
  shows "\<exists>hs s1. on_response env rq now res s = prepare_response env rq now res hs s1 \<and>
           Headers_get hs ''Content-Encoding'' =
             Headers_get (IncomingMessage.headers res) ''Content-Encoding'' \<and>
           response s1 = response s \<and> raw_once s1 = raw_once s"
proof -
  let ?s = "s\<lparr>reqTimeout := False\<rparr>"
  let ?hs = "IncomingMessage.headers res"
  have base: "response ?s = response s \<and> raw_once ?s = raw_once s" by simp
  have rj: "response (reject e ?s) = response s \<and> raw_once (reject e ?s) = raw_once s" for e
    by (simp add: reject_def)
  show ?thesis
  proof (cases "isRedirect (statusCode res)")
    case False
    then have "on_response env rq now res s = prepare_response env rq now res ?hs ?s"
      by (simp add: on_response_def Let_def)
    with base show ?thesis by blast
  next
    case red: True
    with assms have ne: "request.redirect rq \<noteq> ''error''"
      and fo: "request.redirect rq = ''follow'' \<Longrightarrow> Headers_get ?hs ''Location'' = None"
      by (auto simp add: terminal_def)
    show ?thesis
    proof (cases "request.redirect rq = ''manual''")
      case man: True
      show ?thesis
      proof (cases "Headers_get ?hs ''Location''")
        case None
        with red man have "on_response env rq now res s = prepare_response env rq now res ?hs ?s"
          by (simp add: on_response_def Let_def)
        with base show ?thesis by blast
      next
        case (Some loc)
        show ?thesis
        proof (cases "Headers_set (legal_value env) ?hs ''Location'' (resolve_url env (request.url rq) loc)")
          case (Inl err)
          with red man Some
          have "on_response env rq now res s = prepare_response env rq now res ?hs (reject err ?s)"
            by (simp add: on_response_def Let_def)
          with rj show ?thesis by blast
        next
          case (Inr hs')
          with red man Some
          have "on_response env rq now res s = prepare_response env rq now res hs' ?s"
            by (simp add: on_response_def Let_def)
          moreover have "Headers_get hs' ''Content-Encoding'' = Headers_get ?hs ''Content-Encoding''"
            using Headers_get_set_other[OF Inr, of "''Content-Encoding''"] by (simp add: lower_names)
          ultimately show ?thesis using base by blast
        qed
      qed
    next
      case False
      with red ne fo have "on_response env rq now res s = prepare_response env rq now res ?hs ?s"
        by (auto simp add: on_response_def Let_def)
      with base show ?thesis by blast
    qed
  qed
qed

lemma response_deliver:
  "response (deliver env now b opts s) =
     Some ((Response_new (STATUS_CODES env) (extractContentType env) (Some b) opts
              (Some (dispatch.timings s)))
           \<lparr>Response.timings := (dispatch.timings s)\<lparr>totalTime := Some now\<rparr>\<rparr>)"
  by (simp add: deliver_def Let_def resolve_def write_timings_def)

lemma body_Response_new: "Response.body (Response_new sc ect b opts t) = b"
  by (simp add: Response_new_def Let_def)

lemma raw_once_deliver: "raw_once (deliver env now b opts s) = raw_once s"
  by (simp add: deliver_def Let_def resolve_def write_timings_def)

lemma prepare_response_body:
  assumes "response s = None" "raw_once s = None"
  shows "case (if \<not> request.compress rq \<or> request.method rq = ''HEAD'' \<or>
                  Headers_get hs ''Content-Encoding'' = None \<or>
                  statusCode res = 204 \<or> statusCode res = 304 then Some PassThrough
               else if Headers_get hs ''Content-Encoding'' \<in> {Some ''gzip'', Some ''x-gzip''} then Some Gunzip
               else if Headers_get hs ''Content-Encoding'' \<in> {Some ''deflate'', Some ''x-deflate''} then None
               else Some PassThrough) of
           Some b \<Rightarrow> (\<exists>r. response (prepare_response env rq now res hs s) = Some r \<and>
                          Response.body r = Some b) \<and>
                     raw_once (prepare_response env rq now res hs s) = None
         | None \<Rightarrow> response (prepare_response env rq now res hs s) = None \<and>
                   raw_once (prepare_response env rq now res hs s) \<noteq> None"
  using assms
  by (simp add: prepare_response_def Let_def raw_once_deliver response_deliver body_Response_new)

text \<open>
  C6: for a response that the handler takes to the body handling, the Response is built
  on the plain pass-through exactly when compress is false, or the method is HEAD, or
  there is no Content-Encoding header, or the status is 204 or 304, or the value of the
  header is none of gzip, x-gzip, deflate and x-deflate. Otherwise gzip and x-gzip build
  it on the gunzip transform at once, and deflate and x-deflate build none yet and wait
  for the first chunk.
\<close>

theorem decoding_pass_through:
  assumes "terminal rq res" "response s = None" "raw_once s = None"
  shows "((\<exists>r. response (on_response env rq now res s) = Some r \<and>
                Response.body r = Some PassThrough) \<longleftrightarrow>
          (\<not> request.compress rq \<or> request.method rq = ''HEAD'' \<or>
           Headers_get (IncomingMessage.headers res) ''Content-Encoding'' = None \<or>
           statusCode res = 204 \<or> statusCode res = 304 \<or>
           Headers_get (IncomingMessage.headers res) ''Content-Encoding'' \<notin>
             {Some ''gzip'', Some ''x-gzip'', Some ''deflate'', Some ''x-deflate''})) \<and>
         ((\<exists>r. response (on_response env rq now res s) = Some r \<and>
                Response.body r = Some Gunzip) \<longleftrightarrow>
          (request.compress rq \<and> request.method rq \<noteq> ''HEAD'' \<and>
           statusCode res \<noteq> 204 \<and> statusCode res \<noteq> 304 \<and>
           Headers_get (IncomingMessage.headers res) ''Content-Encoding'' \<in>
             {Some ''gzip'', Some ''x-gzip''})) \<and>
         ((response (on_response env rq now res s) = None \<and>
           raw_once (on_response env rq now res s) \<noteq> None) \<longleftrightarrow>
          (request.compress rq \<and> request.method rq \<noteq> ''HEAD'' \<and>
           statusCode res \<noteq> 204 \<and> statusCode res \<noteq> 304 \<and>
           Headers_get (IncomingMessage.headers res) ''Content-Encoding'' \<in>
             {Some ''deflate'', Some ''x-deflate''}))"
proof -
  from on_response_terminal[OF assms(1), of env now s] obtain hs s1 where
    eq: "on_response env rq now res s = prepare_response env rq now res hs s1" and
    ce: "Headers_get hs ''Content-Encoding'' =
           Headers_get (IncomingMessage.headers res) ''Content-Encoding''" and
    s1: "response s1 = None" "raw_once s1 = None"
    using assms(2,3) by auto
  from prepare_response_body[OF s1, where rq=rq and hs=hs and res=res and env=env and now=now]
  show ?thesis
    unfolding eq ce
    by (auto split: if_splits)
qed

theorem decoding_pass_through_witness:
  "terminal sample_get (sample_ok ''br'') \<and>
   response (start sample_get) = None \<and> raw_once (start sample_get) = None \<and>
   request.compress sample_get \<and> request.method sample_get \<noteq> ''HEAD'' \<and>
   Headers_get (IncomingMessage.headers (sample_ok ''br'')) ''Content-Encoding'' = Some ''br'' \<and>
   map_option Response.body
     (response (on_response sample_env sample_get ''5.00'' (sample_ok ''br'') (start sample_get))) =
     Some (Some PassThrough) \<and>
   map_option Response.body
     (response (on_response sample_env sample_get ''5.00'' (sample_ok ''gzip'') (start sample_get))) =
     Some (Some Gunzip) \<and>
   map_option Response.body
     (response (on_response sample_env (sample_get\<lparr>request.method := ''HEAD''\<rparr>) ''5.00''
                  (sample_ok ''gzip'') (start sample_get))) =
     Some (Some PassThrough) \<and>
   response (on_response sample_env sample_get ''5.00'' (sample_ok ''x-deflate'') (start sample_get)) =
     None"
proof -
  have t: "terminal sample_get (sample_ok ''br'')"
    by (simp add: terminal_def sample_ok_def isRedirect_def)
  have r: "response (start sample_get) = None" and w: "raw_once (start sample_get) = None"
    by (simp_all add: start_def sample_get_def initial_def)
  have c: "request.compress sample_get \<and> request.method sample_get \<noteq> ''HEAD'' \<and>
      Headers_get (IncomingMessage.headers (sample_ok ''br'')) ''Content-Encoding'' = Some ''br''"
    by code_simp
  have e1: "map_option Response.body
     (response (on_response sample_env sample_get ''5.00'' (sample_ok ''gzip'') (start sample_get))) =
     Some (Some Gunzip)"
    by code_simp
  have e2: "map_option Response.body
     (response (on_response sample_env (sample_get\<lparr>request.method := ''HEAD''\<rparr>) ''5.00''
                  (sample_ok ''gzip'') (start sample_get))) =
     Some (Some PassThrough)"
    by code_simp
  have e3: "response (on_response sample_env sample_get ''5.00'' (sample_ok ''x-deflate'')
              (start sample_get)) = None"
    by code_simp
  from decoding_pass_through[OF t r w, of sample_env "''5.00''"] c
  have "\<exists>r. response (on_response sample_env sample_get ''5.00'' (sample_ok ''br'') (start sample_get)) =
          Some r \<and> Response.body r = Some PassThrough"
    by simp
  then have "map_option Response.body
     (response (on_response sample_env sample_get ''5.00'' (sample_ok ''br'') (start sample_get))) =
     Some (Some PassThrough)"
    by auto
  with t r w c e1 e2 e3 show ?thesis by simp
qed

text \<open>
  C7: with Content-Encoding deflate or x-deflate and no reason to skip decompression, the
  handler builds no Response; the listener of the first data does. It reads the first
  byte of that chunk and nothing else of it: a low nibble of 8 selects the zlib inflate,
  anything else (an empty chunk too) the raw inflate. The listener runs once: a later
  chunk changes nothing.
\<close>

theorem deflate_first_byte:
  assumes "terminal rq res" "response s = None" "raw_once s = None"
    and "request.compress rq" "request.method rq \<noteq> ''HEAD''"
    and "statusCode res \<noteq> 204" "statusCode res \<noteq> 304"
    and "Headers_get (IncomingMessage.headers res) ''Content-Encoding'' = Some ''deflate'' \<or>
         Headers_get (IncomingMessage.headers res) ''Content-Encoding'' = Some ''x-deflate''"
  shows "response (on_response env rq now res s) = None \<and>
         raw_once (on_response env rq now res s) \<noteq> None \<and>
         (\<forall>now1 chunk.
            (\<exists>r. response (step env rq now1 (EvData chunk) (on_response env rq now res s)) = Some r \<and>
                 Response.body r =
                   Some (case chunk of
                           [] \<Rightarrow> InflateRaw
                         | byte # rest \<Rightarrow> if byte AND 0x0f = 0x08 then Inflate else InflateRaw)) \<and>
            (\<forall>now2 chunk2.
               step env rq now2 (EvData chunk2)
                 (step env rq now1 (EvData chunk) (on_response env rq now res s)) =
               step env rq now1 (EvData chunk) (on_response env rq now res s)))"
proof -
  from on_response_terminal[OF assms(1), of env now s] obtain hs s1 where
    eq: "on_response env rq now res s = prepare_response env rq now res hs s1" and
    ce: "Headers_get hs ''Content-Encoding'' =
           Headers_get (IncomingMessage.headers res) ''Content-Encoding''" and
    s1: "response s1 = None" "raw_once s1 = None"
    using assms(2,3) by auto
  from prepare_response_body[OF s1, where rq=rq and hs=hs and res=res and env=env and now=now]
  have a: "response (on_response env rq now res s) = None"
    and b: "raw_once (on_response env rq now res s) \<noteq> None"
    unfolding eq ce using assms(4-8) by auto
  from b obtain opts where o: "raw_once (on_response env rq now res s) = Some opts" by blast
  have d: "\<exists>r. response (step env rq now1 (EvData chunk) (on_response env rq now res s)) = Some r \<and>
                 Response.body r =
                   Some (case chunk of
                           [] \<Rightarrow> InflateRaw
                         | byte # rest \<Rightarrow> if byte AND 0x0f = 0x08 then Inflate else InflateRaw)"
    for now1 chunk
    using o by (cases chunk) (simp_all add: Let_def response_deliver body_Response_new)
  have e: "raw_once (step env rq now1 (EvData chunk) (on_response env rq now res s)) = None"
    for now1 chunk
    using o by (simp add: Let_def raw_once_deliver)
  have f: "step env rq now2 (EvData chunk2)
                 (step env rq now1 (EvData chunk) (on_response env rq now res s)) =
               step env rq now1 (EvData chunk) (on_response env rq now res s)"
    for now1 chunk now2 chunk2
    using e[of now1 chunk] by (simp del: step.simps add: step.simps(9)[of _ _ now2])
  from a b d f show ?thesis by blast
qed

theorem deflate_first_byte_witness:
  "terminal sample_get (sample_ok ''deflate'') \<and>
   response (start sample_get) = None \<and> raw_once (start sample_get) = None \<and>
   request.compress sample_get \<and> request.method sample_get \<noteq> ''HEAD'' \<and>
   statusCode (sample_ok ''deflate'') \<noteq> 204 \<and> statusCode (sample_ok ''deflate'') \<noteq> 304 \<and>
   Headers_get (IncomingMessage.headers (sample_ok ''deflate'')) ''Content-Encoding'' = Some ''deflate'' \<and>
   map_option Response.body
     (response (step sample_env sample_get ''6.00'' (EvData [0x78, 0x9C, 0x4B])
        (on_response sample_env sample_get ''5.00'' (sample_ok ''deflate'') (start sample_get)))) =
     Some (Some Inflate) \<and>
   map_option Response.body
     (response (step sample_env sample_get ''6.00'' (EvData [0x4B, 0x08, 0x78])
        (on_response sample_env sample_get ''5.00'' (sample_ok ''deflate'') (start sample_get)))) =
     Some (Some InflateRaw) \<and>
   map_option Response.body
     (response (step sample_env sample_get ''7.00'' (EvData [0x4B])
        (step sample_env sample_get ''6.00'' (EvData [0x78, 0x9C, 0x4B])
           (on_response sample_env sample_get ''5.00'' (sample_ok ''deflate'') (start sample_get))))) =
     Some (Some Inflate)"
proof -
  have t: "terminal sample_get (sample_ok ''deflate'')"
    by (simp add: terminal_def sample_ok_def isRedirect_def)
  have r: "response (start sample_get) = None" and w: "raw_once (start sample_get) = None"
    by (simp_all add: start_def sample_get_def initial_def)
  have c: "request.compress sample_get" and m: "request.method sample_get \<noteq> ''HEAD''"
    by (simp_all add: sample_get_def)
  have st: "statusCode (sample_ok ''deflate'') \<noteq> 204" "statusCode (sample_ok ''deflate'') \<noteq> 304"
    by (simp_all add: sample_ok_def)
  have h: "Headers_get (IncomingMessage.headers (sample_ok ''deflate'')) ''Content-Encoding'' =
      Some ''deflate''"
    by code_simp
  have n1: "(0x78 :: 8 word) AND 0x0f = 0x08" and n2: "(0x4B :: 8 word) AND 0x0f \<noteq> 0x08"
    by simp_all
  note th = deflate_first_byte[OF t r w c m st disjI1[OF h], of sample_env "''5.00''"]
  from th obtain r1 where r1:
    "response (step sample_env sample_get ''6.00'' (EvData [0x78, 0x9C, 0x4B])
        (on_response sample_env sample_get ''5.00'' (sample_ok ''deflate'') (start sample_get))) = Some r1"
    "Response.body r1 = Some (case [0x78, 0x9C, 0x4B] of [] \<Rightarrow> InflateRaw
       | byte # rest \<Rightarrow> if byte AND 0x0f = (0x08 :: 8 word) then Inflate else InflateRaw)"
    by blast
  from th obtain r2 where r2:
    "response (step sample_env sample_get ''6.00'' (EvData [0x4B, 0x08, 0x78])
        (on_response sample_env sample_get ''5.00'' (sample_ok ''deflate'') (start sample_get))) = Some r2"
    "Response.body r2 = Some (case [0x4B, 0x08, 0x78] of [] \<Rightarrow> InflateRaw
       | byte # rest \<Rightarrow> if byte AND 0x0f = (0x08 :: 8 word) then Inflate else InflateRaw)"
    by blast
  from th have once: "step sample_env sample_get ''7.00'' (EvData [0x4B])
        (step sample_env sample_get ''6.00'' (EvData [0x78, 0x9C, 0x4B])
           (on_response sample_env sample_get ''5.00'' (sample_ok ''deflate'') (start sample_get))) =
      step sample_env sample_get ''6.00'' (EvData [0x78, 0x9C, 0x4B])
           (on_response sample_env sample_get ''5.00'' (sample_ok ''deflate'') (start sample_get))"
    by blast
  from r1 n1 have b1: "map_option Response.body
     (response (step sample_env sample_get ''6.00'' (EvData [0x78, 0x9C, 0x4B])
        (on_response sample_env sample_get ''5.00'' (sample_ok ''deflate'') (start sample_get)))) =
     Some (Some Inflate)"
    by simp
  from r2 n2 have b2: "map_option Response.body
     (response (step sample_env sample_get ''6.00'' (EvData [0x4B, 0x08, 0x78])
        (on_response sample_env sample_get ''5.00'' (sample_ok ''deflate'') (start sample_get)))) =
     Some (Some InflateRaw)"
    by simp
  from t r w c m st h b1 b2 once show ?thesis by simp
qed

subsection \<open>The states of a call\<close>

lemma run_invariant:
  assumes "P s" and "\<And>s now ev. P s \<Longrightarrow> P (step env rq now ev s)"
  shows "P (run env rq evs s)"
  using assms(1)
proof (induction evs arbitrary: s)
  case Nil
  then show ?case by simp
next
  case (Cons a evs)
  obtain now ev where a: "a = (now, ev)" by (cases a)
  from Cons.prems have "P (step env rq now ev s)" by (rule assms(2))
  then have "P (run env rq evs (step env rq now ev s))" by (rule Cons.IH)
  then show ?case by (simp add: a)
qed

lemma run_append: "run env rq (xs @ ys) s = run env rq ys (run env rq xs s)"
  by (induction xs arbitrary: s) auto

lemma consistent_reject: "consistent s \<Longrightarrow> consistent (reject e s)"
  by (simp add: consistent_def reject_def)

lemma consistent_finalize: "consistent (finalize rq s) = consistent s"
  by (simp add: consistent_def finalize_def Let_def)

lemma consistent_write_timings: "consistent s \<Longrightarrow> consistent (write_timings f s)"
  by (cases "promise s") (auto simp add: consistent_def write_timings_def Let_def share_def)

lemma consistent_resolve_Forwarded: "consistent s \<Longrightarrow> consistent (resolve now (Forwarded q) s)"
proof -
  assume c: "consistent s"
  let ?s1 = "write_timings (\<lambda>t. t\<lparr>totalTime := Some now\<rparr>) s"
  from c have c1: "consistent ?s1" by (rule consistent_write_timings)
  show ?thesis
  proof (cases "promise ?s1 = Pending")
    case True
    with c1 have "consistent (?s1\<lparr>promise := Forwarded q\<rparr>)"
      by (simp add: consistent_def)
    with True show ?thesis by (simp add: resolve_def Let_def share_def)
  next
    case False
    with c1 show ?thesis by (simp add: resolve_def Let_def)
  qed
qed

lemma consistent_abort: "consistent s \<Longrightarrow> consistent (abort rq s)"
  by (auto simp add: consistent_def abort_def reject_def Let_def split: option.splits)

lemma consistent_deliver:
  assumes "\<And>r. promise s \<noteq> Fulfilled r" "\<not> response_once s" "raw_once s = None"
  shows "consistent (deliver env now b opts s)"
  using assms
  by (cases "promise s")
     (auto simp add: consistent_def deliver_def resolve_def write_timings_def Let_def share_def
        body_Response_new)

lemma consistent_prepare_response:
  assumes "consistent s" "response s = None" "\<not> response_once s" "raw_once s = None"
  shows "consistent (prepare_response env rq now res hs s)"
proof -
  let ?s = "s\<lparr>end_once := True, readable_once := True\<rparr>"
  from assms(1,2) have nf: "\<And>r. promise ?s \<noteq> Fulfilled r"
    by (auto simp add: consistent_def)
  have d: "consistent (deliver env now b opts ?s)" for b opts
    using nf assms(3,4) by (intro consistent_deliver) simp_all
  have r: "consistent (?s\<lparr>raw_once := Some opts\<rparr>)" for opts
    using assms by (simp add: consistent_def)
  show ?thesis
    using d r by (simp add: prepare_response_def Let_def)
qed

lemma consistent_on_response:
  assumes "consistent s" "response s = None" "\<not> response_once s" "raw_once s = None"
  shows "consistent (on_response env rq now res s)"
proof -
  let ?s = "s\<lparr>reqTimeout := False\<rparr>"
  have c: "consistent ?s" using assms(1) by (simp add: consistent_def)
  have f: "response ?s = None" "\<not> response_once ?s" "raw_once ?s = None"
    using assms by simp_all
  have rj: "consistent (reject e ?s)" "response (reject e ?s) = None"
    "\<not> response_once (reject e ?s)" "raw_once (reject e ?s) = None" for e
    using c f by (simp_all add: consistent_reject) (simp_all add: reject_def)
  have p1: "consistent (prepare_response env rq now res hs ?s)" for hs
    using c f by (rule consistent_prepare_response)
  have p2: "consistent (prepare_response env rq now res hs (reject e ?s))" for hs e
    using rj by (rule consistent_prepare_response)
  have fr: "consistent (finalize rq (reject e ?s))" for e
    using rj(1) by (simp add: consistent_finalize)
  have fw: "consistent (finalize rq (resolve now (Forwarded q) ?s))" for q
    using c by (simp add: consistent_finalize consistent_resolve_Forwarded)
  show ?thesis
    using p1 p2 fr fw
    by (simp add: on_response_def Let_def split: option.splits sum.splits)
qed

lemma consistent_step:
  assumes "consistent s"
  shows "consistent (step env rq now ev s)"
proof (cases ev)
  case EvSocket
  with assms show ?thesis by (simp add: consistent_def Let_def)
next
  case EvLookup
  with assms show ?thesis by (simp add: consistent_write_timings)
next
  case EvConnect
  with assms show ?thesis by (simp add: consistent_write_timings)
next
  case EvSecureConnect
  with assms show ?thesis by (simp add: consistent_write_timings)
next
  case EvTimeout
  with assms show ?thesis by (simp add: consistent_finalize consistent_reject)
next
  case (EvError m)
  with assms show ?thesis by (simp add: consistent_finalize consistent_reject)
next
  case (EvResponse res)
  show ?thesis
  proof (cases "sent s \<and> response_once s")
    case True
    let ?s = "s\<lparr>response_once := False\<rparr>"
    from assms True have "consistent ?s" "response ?s = None" "\<not> response_once ?s" "raw_once ?s = None"
      by (auto simp add: consistent_def)
    then have "consistent (on_response env rq now res ?s)" by (rule consistent_on_response)
    with True EvResponse show ?thesis by simp
  next
    case False
    with assms EvResponse show ?thesis by auto
  qed
next
  case EvReadable
  have "consistent (s\<lparr>readable_once := False\<rparr>)" using assms by (simp add: consistent_def)
  with assms EvReadable show ?thesis by (simp add: consistent_write_timings)
next
  case (EvData chunk)
  show ?thesis
  proof (cases "raw_once s")
    case None
    with assms EvData show ?thesis by simp
  next
    case (Some opts)
    let ?s = "s\<lparr>raw_once := None\<rparr>"
    from assms Some have "\<And>r. promise ?s \<noteq> Fulfilled r" "\<not> response_once ?s" "raw_once ?s = None"
      by (auto simp add: consistent_def)
    then have "consistent (deliver env now b opts ?s)" for b by (rule consistent_deliver)
    with Some EvData show ?thesis by (simp add: Let_def)
  qed
next
  case EvEnd
  with assms show ?thesis by (simp add: consistent_def Let_def)
next
  case EvAbort
  with assms show ?thesis by (simp add: abortAndFinalize_def consistent_finalize consistent_abort)
qed

lemma consistent_start: "consistent (start rq)"
  by (simp add: consistent_def start_def initial_def abort_def reject_def Let_def)

lemma consistent_run: "consistent (run env rq evs (start rq))"
  using consistent_start consistent_step by (rule run_invariant)

subsection \<open>Cancellation\<close>

lemma abort_listener_step:
  "abort_listener (step env rq now ev s) \<Longrightarrow> abort_listener s"
proof (cases ev)
  case (EvResponse res)
  assume a: "abort_listener (step env rq now ev s)"
  have d: "abort_listener (deliver env now' b opts s') = abort_listener s'" for now' b opts s'
    by (simp add: deliver_def Let_def resolve_def write_timings_def)
  have p: "abort_listener (prepare_response env rq now res hs s') = abort_listener s'" for hs s'
    by (simp add: prepare_response_def Let_def d)
  have f: "abort_listener (finalize rq s') \<Longrightarrow> abort_listener s'" for s'
    by (simp add: finalize_def Let_def split: if_splits)
  have r: "abort_listener (reject e s') = abort_listener s'" for e s'
    by (simp add: reject_def)
  have v: "abort_listener (resolve now v s') = abort_listener s'" for v s'
    by (simp add: resolve_def write_timings_def Let_def)
  from a EvResponse show ?thesis
    by (auto simp add: on_response_def Let_def p r v dest!: f split: if_splits option.splits sum.splits)
next
  case (EvData chunk)
  assume "abort_listener (step env rq now ev s)"
  with EvData show ?thesis
    by (auto simp add: deliver_def Let_def resolve_def write_timings_def split: option.splits if_splits)
qed (auto simp add: write_timings_def Let_def finalize_def reject_def abortAndFinalize_def abort_def
      split: if_splits option.splits)

lemma abort_listener_signal:
  "abort_listener (run env rq evs (start rq)) \<Longrightarrow> request.signal rq \<noteq> None"
proof -
  have "abort_listener (run env rq evs (start rq)) \<longrightarrow> request.signal rq \<noteq> None"
  proof (rule run_invariant)
    show "abort_listener (start rq) \<longrightarrow> request.signal rq \<noteq> None"
      by (auto simp add: start_def initial_def abort_def reject_def Let_def split: if_splits)
  next
    fix s :: dispatch and now ev
    assume "abort_listener s \<longrightarrow> request.signal rq \<noteq> None"
    then show "abort_listener (step env rq now ev s) \<longrightarrow> request.signal rq \<noteq> None"
      using abort_listener_step by blast
  qed
  then show "abort_listener (run env rq evs (start rq)) \<Longrightarrow> request.signal rq \<noteq> None"
    by blast
qed

text \<open>
  What a signal does in any state that a call reaches with the abort listener registered.
  If the promise is pending it is rejected with the AbortError carrying the timings, and
  no error goes to a stream. If the promise is fulfilled with a Response, that Response is
  the one whose body the caller holds: the promise stays as it is and one AbortError is
  emitted on that body. The rejection takes effect exactly when the promise is pending,
  the emission happens exactly when a Response has been built, and never both: exactly
  one of the two whenever the promise is pending or fulfilled. The listener is then
  removed.
\<close>

lemma abort_delivery:
  assumes "s = run env rq evs (start rq)" and "abort_listener s"
  shows "(promise s = Pending \<longrightarrow>
            promise (step env rq now EvAbort s) =
              Rejected (AbortError ''The user aborted a request.'') (dispatch.timings s) \<and>
            stream_errors (step env rq now EvAbort s) = stream_errors s) \<and>
         (\<forall>r. promise s = Fulfilled r \<longrightarrow>
            response s = Some r \<and> Response.body r \<noteq> None \<and>
            promise (step env rq now EvAbort s) = Fulfilled r \<and>
            stream_errors (step env rq now EvAbort s) =
              stream_errors s @ [AbortError ''The user aborted a request.'']) \<and>
         ((promise (step env rq now EvAbort s) \<noteq> promise s) = (promise s = Pending)) \<and>
         ((stream_errors (step env rq now EvAbort s) \<noteq> stream_errors s) = (response s \<noteq> None)) \<and>
         \<not> (promise (step env rq now EvAbort s) \<noteq> promise s \<and>
            stream_errors (step env rq now EvAbort s) \<noteq> stream_errors s) \<and>
         \<not> abort_listener (step env rq now EvAbort s)"
proof -
  have c: "consistent s" unfolding assms(1) by (rule consistent_run)
  have sg: "request.signal rq \<noteq> None"
    using assms(2) unfolding assms(1) by (rule abort_listener_signal)
  have st: "step env rq now EvAbort s = finalize rq (abort rq s)"
    using assms(2) by (simp add: abortAndFinalize_def)
  have pr: "promise (step env rq now EvAbort s) =
      (if promise s = Pending
       then Rejected (AbortError ''The user aborted a request.'') (dispatch.timings s)
       else promise s)"
    unfolding st
    by (simp add: promise_finalize abort_def Let_def reject_def split: option.splits)
  have se: "stream_errors (step env rq now EvAbort s) =
      (case response s of
         None \<Rightarrow> stream_errors s
       | Some r \<Rightarrow> stream_errors s @ [AbortError ''The user aborted a request.''])"
    unfolding st using c
    by (auto simp add: finalize_def abort_def Let_def reject_def consistent_def split: option.splits)
  have al: "\<not> abort_listener (step env rq now EvAbort s)"
    unfolding st using sg by (simp add: finalize_def Let_def)
  from c have p: "promise s = Pending \<Longrightarrow> response s = None"
    and f: "\<And>r. promise s = Fulfilled r \<Longrightarrow> response s = Some r \<and> Response.body r \<noteq> None"
    by (auto simp add: consistent_def)
  show ?thesis
    using pr se al p f by (auto split: option.splits)
qed

lemma abort_delivery_sample:
  "abort_listener (run sample_env sample_get sample_connecting (start sample_get)) \<and>
   promise (run sample_env sample_get sample_connecting (start sample_get)) = Pending \<and>
   promise (step sample_env sample_get ''10.00'' EvAbort
              (run sample_env sample_get sample_connecting (start sample_get))) =
     Rejected (AbortError ''The user aborted a request.'')
       (empty_timings\<lparr>dnsLookupTime := Some ''2.50''\<rparr>) \<and>
   stream_errors (step sample_env sample_get ''10.00'' EvAbort
              (run sample_env sample_get sample_connecting (start sample_get))) = [] \<and>
   abort_listener (run sample_env sample_get sample_streaming (start sample_get)) \<and>
   map_option Response.body
     (response (run sample_env sample_get sample_streaming (start sample_get))) =
     Some (Some Gunzip) \<and>
   promise (step sample_env sample_get ''10.00'' EvAbort
              (run sample_env sample_get sample_streaming (start sample_get))) =
     promise (run sample_env sample_get sample_streaming (start sample_get)) \<and>
   stream_errors (step sample_env sample_get ''10.00'' EvAbort
              (run sample_env sample_get sample_streaming (start sample_get))) =
     [AbortError ''The user aborted a request.'']"
proof -
  let ?p = "run sample_env sample_get sample_connecting (start sample_get)"
  let ?f = "run sample_env sample_get sample_streaming (start sample_get)"
  have a1: "abort_listener ?p" by code_simp
  have p1: "promise ?p = Pending" by code_simp
  have t1: "dispatch.timings ?p = empty_timings\<lparr>dnsLookupTime := Some ''2.50''\<rparr>" by code_simp
  have e1: "stream_errors ?p = []" by code_simp
  have a2: "abort_listener ?f" by code_simp
  have b2: "map_option Response.body (response ?f) = Some (Some Gunzip)" by code_simp
  have e2: "stream_errors ?f = []" by code_simp
  from b2 have r2: "response ?f \<noteq> None" by auto
  note w1 = abort_delivery[OF refl a1, of "''10.00''"]
  note w2 = abort_delivery[OF refl a2, of "''10.00''"]
  from w1 p1 t1 e1 have c1:
    "promise (step sample_env sample_get ''10.00'' EvAbort ?p) =
       Rejected (AbortError ''The user aborted a request.'')
         (empty_timings\<lparr>dnsLookupTime := Some ''2.50''\<rparr>)"
    "stream_errors (step sample_env sample_get ''10.00'' EvAbort ?p) = []"
    by simp_all
  from w2 r2 have ne: "stream_errors (step sample_env sample_get ''10.00'' EvAbort ?f) \<noteq> stream_errors ?f"
    by blast
  with w2 have c2: "promise (step sample_env sample_get ''10.00'' EvAbort ?f) = promise ?f"
    by blast
  have c3: "stream_errors (step sample_env sample_get ''10.00'' EvAbort ?f) =
      [AbortError ''The user aborted a request.'']"
    by code_simp
  from a1 p1 c1 a2 b2 c2 c3 show ?thesis by simp
qed

subsection \<open>Redirect mode manual\<close>

lemma Location_Response_new:
  assumes "Headers_get (case response_options.headers opts of None \<Rightarrow> [] | Some h \<Rightarrow> h)
             ''Location'' = Some u"
  shows "Headers_get (Response.headers (Response_new sc ect b opts t)) ''Location'' = Some u"
  using assms Headers_get_append_other[of "''Location''" "''Content-Type''"]
  by (simp add: Response_new_def Let_def lower_names split: option.splits)

lemma share_cases:
  "share t p = (case p of Fulfilled r \<Rightarrow> Fulfilled (r\<lparr>Response.timings := t\<rparr>)
                | Rejected e _ \<Rightarrow> Rejected e t | _ \<Rightarrow> p)"
  by (simp add: share_def)

lemma located_share:
  "located u s \<Longrightarrow> located u (s\<lparr>promise := share t (promise s)\<rparr>)"
  by (cases "promise s") (auto simp add: located_def share_def)

lemma located_write_timings: "located u s \<Longrightarrow> located u (write_timings f s)"
  by (cases "promise s") (auto simp add: located_def write_timings_def Let_def share_def)

lemma located_reject: "located u s \<Longrightarrow> located u (reject e s)"
  by (auto simp add: located_def reject_def)

lemma located_finalize: "located u (finalize rq s) = located u s"
  by (simp add: located_def finalize_def Let_def)

lemma located_abort: "located u s \<Longrightarrow> located u (abort rq s)"
  by (auto simp add: located_def abort_def reject_def Let_def split: option.splits)

lemma located_deliver:
  assumes "located u s"
    "Headers_get (case response_options.headers opts of None \<Rightarrow> [] | Some h \<Rightarrow> h) ''Location'' = Some u"
  shows "located u (deliver env now b opts s)"
proof -
  have rw: "raw_once (deliver env now b opts s) = raw_once s"
    by (rule raw_once_deliver)
  have ro: "response_once (deliver env now b opts s) = response_once s"
    by (simp add: deliver_def Let_def resolve_def write_timings_def)
  have l: "Headers_get (Response.headers
             ((Response_new (STATUS_CODES env) (extractContentType env) (Some b) opts
                (Some (dispatch.timings s)))\<lparr>Response.timings := t\<rparr>)) ''Location'' = Some u" for t
    using Location_Response_new[OF assms(2)] by simp
  show ?thesis
    using assms(1) l
    by (cases "promise s") (auto simp add: located_def rw ro promise_deliver share_def)
qed

lemma located_step:
  assumes "located u s"
  shows "located u (step env rq now ev s)"
proof (cases ev)
  case EvSocket
  with assms show ?thesis by (simp add: located_def Let_def)
next
  case EvLookup
  with assms show ?thesis by (simp add: located_write_timings)
next
  case EvConnect
  with assms show ?thesis by (simp add: located_write_timings)
next
  case EvSecureConnect
  with assms show ?thesis by (simp add: located_write_timings)
next
  case EvTimeout
  with assms show ?thesis by (simp add: located_finalize located_reject)
next
  case (EvError m)
  with assms show ?thesis by (simp add: located_finalize located_reject)
next
  case (EvResponse res)
  with assms show ?thesis by (simp add: located_def)
next
  case EvReadable
  have "located u (s\<lparr>readable_once := False\<rparr>)" using assms by (simp add: located_def)
  with assms EvReadable show ?thesis by (simp add: located_write_timings)
next
  case (EvData chunk)
  show ?thesis
  proof (cases "raw_once s")
    case None
    with assms EvData show ?thesis by simp
  next
    case (Some opts)
    from assms Some have "located u (s\<lparr>raw_once := None\<rparr>)"
      and "Headers_get (case response_options.headers opts of None \<Rightarrow> [] | Some h \<Rightarrow> h)
             ''Location'' = Some u"
      by (auto simp add: located_def)
    then have "located u (deliver env now b opts (s\<lparr>raw_once := None\<rparr>))" for b
      by (rule located_deliver)
    with Some EvData show ?thesis by (simp add: Let_def)
  qed
next
  case EvEnd
  with assms show ?thesis by (simp add: located_def Let_def)
next
  case EvAbort
  with assms show ?thesis by (simp add: abortAndFinalize_def located_finalize located_abort)
qed

lemma surfaced_promise:
  "surfaced u s \<Longrightarrow> response_once s' = response_once s \<Longrightarrow>
   promise s' = promise s \<or> (\<exists>t. promise s' = share t (promise s)) \<Longrightarrow> surfaced u s'"
  by (auto simp add: surfaced_def share_def)

lemma surfaced_step:
  assumes "surfaced u s"
  shows "surfaced u (step env rq now ev s)"
proof -
  from assms obtain t where np: "\<not> response_once s" and pr: "promise s = Rejected (HeaderCorruptionError u) t"
    by (auto simp add: surfaced_def)
  have d: "response_once (deliver env now b opts s') = response_once s'" for b opts s'
    by (simp add: deliver_def Let_def resolve_def write_timings_def)
  show ?thesis
  proof (cases ev)
    case (EvData chunk)
    then show ?thesis using np pr
      by (cases "raw_once s")
         (auto simp add: surfaced_def Let_def d promise_deliver share_def)
  next
    case (EvResponse res)
    then show ?thesis using assms np by simp
  qed (use np pr in \<open>auto simp add: surfaced_def Let_def write_timings_def share_def finalize_def
         reject_def abortAndFinalize_def abort_def split: option.splits\<close>)
qed

lemma on_response_manual:
  assumes "request.redirect rq = ''manual''" "isRedirect (statusCode res)"
    "Headers_get (IncomingMessage.headers res) ''Location'' = Some loc"
  shows "on_response env rq now res s =
     (case Headers_set (legal_value env) (IncomingMessage.headers res) ''Location''
             (resolve_url env (request.url rq) loc) of
        Inr hs' \<Rightarrow> prepare_response env rq now res hs' (s\<lparr>reqTimeout := False\<rparr>)
      | Inl err \<Rightarrow> prepare_response env rq now res (IncomingMessage.headers res)
                    (reject err (s\<lparr>reqTimeout := False\<rparr>)))"
  using assms by (simp add: on_response_def Let_def)

lemma response_once_prepare_response:
  "response_once (prepare_response env rq now res hs s) = response_once s"
  by (simp add: prepare_response_def Let_def deliver_def resolve_def write_timings_def)

lemma located_prepare_response:
  assumes "promise s = Pending" "\<not> response_once s" "raw_once s = None"
    "Headers_get hs ''Location'' = Some u"
  shows "located u (prepare_response env rq now res hs s)"
proof -
  let ?s = "s\<lparr>end_once := True, readable_once := True\<rparr>"
  have l: "located u ?s" using assms(1-3) by (simp add: located_def)
  have d: "located u (deliver env now b
             \<lparr>response_options.url = Some (request.url rq), status = Some (statusCode res),
              statusText = Some (statusMessage res), headers = Some hs, remoteAddress = None,
              size = Some (request.size rq), timeout = Some (request.timeout rq)\<rparr> ?s)" for b
    using l assms(4) by (intro located_deliver) simp_all
  have r: "located u (?s\<lparr>raw_once := Some
             \<lparr>response_options.url = Some (request.url rq), status = Some (statusCode res),
              statusText = Some (statusMessage res), headers = Some hs, remoteAddress = None,
              size = Some (request.size rq), timeout = Some (request.timeout rq)\<rparr>\<rparr>)"
    using assms by (simp add: located_def)
  show ?thesis using d r by (simp add: prepare_response_def Let_def)
qed

lemma delivered_prepare_response:
  assumes "promise s = Pending"
  shows "(\<exists>r. promise (prepare_response env rq now res hs s) = Fulfilled r) \<or>
         (\<forall>now1 chunk. \<exists>r. promise (step env rq now1 (EvData chunk)
                                       (prepare_response env rq now res hs s)) = Fulfilled r)"
  using assms
  by (simp add: prepare_response_def Let_def promise_deliver)

text \<open>
  C5: in manual mode, on a redirect status with a Location header, whatever events come
  after the response: no follow-up call is made; when the resolved URL is a legal header
  value, every Response the promise is fulfilled with carries that URL (the resolution of
  the Location against the URL of the request) as its Location, and the Response is
  delivered at once or at the first chunk; when it is not, the promise is rejected with
  the error of the rewrite and stays so.
\<close>

theorem manual_location:
  assumes "request.redirect rq = ''manual''" "isRedirect (statusCode res)"
    and "Headers_get (IncomingMessage.headers res) ''Location'' = Some loc"
    and "sent s" "response_once s" "promise s = Pending" "raw_once s = None"
  shows "(\<forall>evs rq'. promise (run env rq evs (step env rq now (EvResponse res) s)) \<noteq> Forwarded rq') \<and>
         (legal_value env (resolve_url env (request.url rq) loc) \<longrightarrow>
            (\<forall>evs r. promise (run env rq evs (step env rq now (EvResponse res) s)) = Fulfilled r \<longrightarrow>
               Headers_get (Response.headers r) ''Location'' =
                 Some (resolve_url env (request.url rq) loc)) \<and>
            ((\<exists>r. promise (step env rq now (EvResponse res) s) = Fulfilled r) \<or>
             (\<forall>now1 chunk. \<exists>r. promise (step env rq now1 (EvData chunk)
                                           (step env rq now (EvResponse res) s)) = Fulfilled r))) \<and>
         (\<not> legal_value env (resolve_url env (request.url rq) loc) \<longrightarrow>
            (\<forall>evs. \<exists>t. promise (run env rq evs (step env rq now (EvResponse res) s)) =
               Rejected (HeaderCorruptionError (resolve_url env (request.url rq) loc)) t))"
proof -
  let ?u = "resolve_url env (request.url rq) loc"
  let ?s0 = "s\<lparr>response_once := False, reqTimeout := False\<rparr>"
  let ?s1 = "step env rq now (EvResponse res) s"
  have s1: "?s1 = on_response env rq now res (s\<lparr>response_once := False\<rparr>)"
    using assms(4,5) by simp
  have s0: "promise ?s0 = Pending" "\<not> response_once ?s0" "raw_once ?s0 = None"
    using assms(6,7) by simp_all
  show ?thesis
  proof (cases "legal_value env ?u")
    case True
    then obtain hs' where hs': "Headers_set (legal_value env) (IncomingMessage.headers res)
        ''Location'' ?u = Inr hs'"
      by (simp add: Headers_set_def)
    have eq: "?s1 = prepare_response env rq now res hs' ?s0"
      unfolding s1 by (simp add: on_response_manual[OF assms(1-3)] hs')
    have g: "Headers_get hs' ''Location'' = Some ?u"
      using hs' by (rule Headers_get_set_same)
    have l1: "located ?u ?s1" unfolding eq using s0 g by (rule located_prepare_response)
    have inv: "located ?u (run env rq evs ?s1)" for evs
      using l1 located_step by (rule run_invariant)
    have dl: "(\<exists>r. promise ?s1 = Fulfilled r) \<or>
         (\<forall>now1 chunk. \<exists>r. promise (step env rq now1 (EvData chunk) ?s1) = Fulfilled r)"
      unfolding eq using s0(1) by (rule delivered_prepare_response)
    have a: "promise (run env rq evs ?s1) \<noteq> Forwarded rq'" for evs rq'
      using inv[of evs] unfolding located_def by blast
    have b: "promise (run env rq evs ?s1) = Fulfilled r \<Longrightarrow>
        Headers_get (Response.headers r) ''Location'' = Some ?u" for evs r
      using inv[of evs] unfolding located_def by blast
    from a b dl True show ?thesis by blast
  next
    case False
    then have hs: "Headers_set (legal_value env) (IncomingMessage.headers res)
        ''Location'' ?u = Inl (HeaderCorruptionError ?u)"
      by (simp add: Headers_set_def)
    have eq: "?s1 = prepare_response env rq now res (IncomingMessage.headers res)
                (reject (HeaderCorruptionError ?u) ?s0)"
      unfolding s1 by (simp add: on_response_manual[OF assms(1-3)] hs)
    have rj: "promise (reject (HeaderCorruptionError ?u) ?s0) =
        Rejected (HeaderCorruptionError ?u) (dispatch.timings s)"
      using assms(6) by (simp add: reject_def)
    have ro: "\<not> response_once ?s1"
      unfolding eq by (simp add: response_once_prepare_response reject_def)
    have "promise (reject (HeaderCorruptionError ?u) ?s0) \<noteq> Pending"
      using rj by simp
    from promise_prepare_response[OF this, of env rq now res "IncomingMessage.headers res"]
    have "\<exists>t. promise ?s1 = Rejected (HeaderCorruptionError ?u) t"
      unfolding eq rj by (auto simp add: share_def)
    with ro have "surfaced ?u ?s1"
      unfolding surfaced_def by blast
    then have inv: "surfaced ?u (run env rq evs ?s1)" for evs
      using surfaced_step by (rule run_invariant)
    have a: "\<exists>t. promise (run env rq evs ?s1) = Rejected (HeaderCorruptionError ?u) t" for evs
      using inv[of evs] unfolding surfaced_def by blast
    have b: "promise (run env rq evs ?s1) \<noteq> Forwarded rq'" for evs rq'
      using a[of evs] by (auto simp del: step.simps)
    from a b False show ?thesis by blast
  qed
qed

theorem manual_location_witness:
  "request.redirect sample_manual = ''manual'' \<and> isRedirect (statusCode (sample_redirect 302)) \<and>
   Headers_get (IncomingMessage.headers (sample_redirect 302)) ''Location'' = Some ''/x'' \<and>
   sent (start sample_manual) \<and> response_once (start sample_manual) \<and>
   promise (start sample_manual) = Pending \<and> raw_once (start sample_manual) = None \<and>
   resolve_url sample_env (request.url sample_manual) ''/x'' = ''http://h/x'' \<and>
   legal_value sample_env ''http://h/x'' \<and>
   (case promise (step sample_env sample_manual ''3.00'' (EvResponse (sample_redirect 302))
                   (start sample_manual)) of
      Fulfilled r \<Rightarrow> Headers_get (Response.headers r) ''Location''
    | _ \<Rightarrow> None) = Some ''http://h/x'' \<and>
   legal_value sample_env ''?q'' \<and>
   \<not> legal_value sample_env (resolve_url sample_env (request.url sample_del) ''?q'') \<and>
   promise (step sample_env sample_del ''3.00'' (EvResponse sample_query_redirect) (start sample_del)) =
     Rejected (HeaderCorruptionError (''http://h/a'' @ [CHR 0x7F] @ ''?q'')) empty_timings"
proof -
  let ?s1 = "step sample_env sample_manual ''3.00'' (EvResponse (sample_redirect 302))
               (start sample_manual)"
  have m: "request.redirect sample_manual = ''manual''"
    by (simp add: sample_manual_def)
  have r: "isRedirect (statusCode (sample_redirect 302))"
    by (simp add: isRedirect_def sample_redirect_def)
  have l: "Headers_get (IncomingMessage.headers (sample_redirect 302)) ''Location'' = Some ''/x''"
    by code_simp
  have st: "sent (start sample_manual)" "response_once (start sample_manual)"
    "promise (start sample_manual) = Pending" "raw_once (start sample_manual) = None"
    by (simp_all add: start_def initial_def sample_manual_def sample_get_def)
  have u: "resolve_url sample_env (request.url sample_manual) ''/x'' = ''http://h/x''"
    by (simp add: sample_env_def sample_manual_def sample_get_def)
  have lg: "legal_value sample_env ''http://h/x''"
    by code_simp
  have "(case promise ?s1 of Fulfilled r \<Rightarrow> True | _ \<Rightarrow> False)"
    by code_simp
  then have f: "\<exists>r. promise ?s1 = Fulfilled r"
    by (cases "promise ?s1") (simp_all del: step.simps)
  have c: "legal_value sample_env ''?q'' \<and>
     \<not> legal_value sample_env (resolve_url sample_env (request.url sample_del) ''?q'') \<and>
     promise (step sample_env sample_del ''3.00'' (EvResponse sample_query_redirect)
             (start sample_del)) =
     Rejected (HeaderCorruptionError (''http://h/a'' @ [CHR 0x7F] @ ''?q'')) empty_timings"
    by code_simp
  note th = manual_location[OF m r l st, of sample_env "''3.00''"]
  from f obtain r1 where r1: "promise ?s1 = Fulfilled r1" by blast
  from th u lg have "\<forall>evs r. promise (run sample_env sample_manual evs ?s1) = Fulfilled r \<longrightarrow>
      Headers_get (Response.headers r) ''Location'' = Some ''http://h/x''"
    by (simp del: step.simps)
  then have "promise (run sample_env sample_manual [] ?s1) = Fulfilled r1 \<longrightarrow>
      Headers_get (Response.headers r1) ''Location'' = Some ''http://h/x''"
    by blast
  with r1 have "Headers_get (Response.headers r1) ''Location'' = Some ''http://h/x''"
    by (simp del: step.simps)
  with r1 have d: "(case promise ?s1 of
      Fulfilled r \<Rightarrow> Headers_get (Response.headers r) ''Location''
    | _ \<Rightarrow> None) = Some ''http://h/x''"
    by (simp del: step.simps)
  from m r l st u lg d c show ?thesis by (simp del: step.simps)
qed

subsection \<open>The timer\<close>

lemma timed_out_share: "timed_out (share t p) = timed_out p"
  by (cases p) (simp_all add: share_def timed_out_def)

lemma timed_out_simps:
  "\<not> timed_out Pending" "\<not> timed_out (Fulfilled r)" "\<not> timed_out (Forwarded q)"
  "\<not> timed_out (Rejected (AbortError m) t)" "\<not> timed_out (Rejected (HeaderCorruptionError m) t)"
  "timed_out (Rejected (FetchError m k) t) = (k = ''request-timeout'')"
  by (simp_all add: timed_out_def)

lemma timed_out_reject:
  "(\<And>m. e \<noteq> FetchError m ''request-timeout'') \<Longrightarrow>
   timed_out (promise (reject e s)) = timed_out (promise s)"
  by (cases e) (auto simp add: reject_def timed_out_def)

lemma timed_out_write_timings: "timed_out (promise (write_timings f s)) = timed_out (promise s)"
  by (simp add: promise_write_timings timed_out_share)

lemma timed_out_resolve:
  "\<not> timed_out v \<Longrightarrow> timed_out (promise (resolve now v s)) = timed_out (promise s)"
  by (simp add: promise_resolve timed_out_share timed_out_simps)

lemma timed_out_deliver: "timed_out (promise (deliver env now b opts s)) = timed_out (promise s)"
  by (simp add: promise_deliver timed_out_share timed_out_simps)

lemma timed_out_prepare_response:
  "timed_out (promise (prepare_response env rq now res hs s)) = timed_out (promise s)"
  by (simp add: prepare_response_def Let_def timed_out_deliver)

lemma timed_out_abort: "timed_out (promise (abort rq s)) = timed_out (promise s)"
  by (auto simp add: abort_def Let_def reject_def timed_out_def split: option.splits)

lemma timed_out_on_response:
  "timed_out (promise (on_response env rq now res s)) = timed_out (promise s)"
proof -
  have f: "timed_out (promise (finalize rq (reject (FetchError m k) s'))) = timed_out (promise s')"
    if "k \<noteq> ''request-timeout''" for m k s'
    using that by (simp add: promise_finalize timed_out_reject)
  have h: "timed_out (promise (reject (HeaderCorruptionError v) s')) = timed_out (promise s')" for v s'
    by (simp add: timed_out_reject)
  have w: "timed_out (promise (finalize rq (resolve now (Forwarded q) s'))) = timed_out (promise s')"
    for q s'
    by (simp add: promise_finalize timed_out_resolve timed_out_simps)
  show ?thesis
    by (simp add: on_response_def Let_def Headers_set_def timed_out_prepare_response f h w
        split: option.splits)
qed

lemma timed_out_step:
  assumes "\<not> reqTimeout s"
  shows "timed_out (promise (step env rq now ev s)) = timed_out (promise s)"
  using assms
  by (cases ev)
     (auto simp add: Let_def timed_out_write_timings timed_out_on_response timed_out_deliver
        promise_finalize timed_out_reject abortAndFinalize_def timed_out_abort split: option.splits)

lemma reqTimeout_on_response: "\<not> reqTimeout (on_response env rq now res s)"
proof -
  have d: "reqTimeout (deliver env now' b opts s') = reqTimeout s'" for now' b opts s'
    by (simp add: deliver_def Let_def resolve_def write_timings_def)
  have p: "reqTimeout (prepare_response env rq now res hs s') = reqTimeout s'" for hs s'
    by (simp add: prepare_response_def Let_def d)
  have r: "reqTimeout (reject e s') = reqTimeout s'" for e s'
    by (simp add: reject_def)
  have f: "\<not> reqTimeout (finalize rq s')" for s'
    by (simp add: finalize_def Let_def)
  show ?thesis
    by (simp add: on_response_def Let_def p r f split: option.splits sum.splits)
qed

lemma socket_once_on_response: "socket_once (on_response env rq now res s) = socket_once s"
proof -
  have d: "socket_once (deliver env now' b opts s') = socket_once s'" for now' b opts s'
    by (simp add: deliver_def Let_def resolve_def write_timings_def)
  have p: "socket_once (prepare_response env rq now res hs s') = socket_once s'" for hs s'
    by (simp add: prepare_response_def Let_def d)
  have r: "socket_once (reject e s') = socket_once s'" for e s'
    by (simp add: reject_def)
  have f: "socket_once (finalize rq s') = socket_once s'" for s'
    by (simp add: finalize_def Let_def)
  have v: "socket_once (resolve now v s') = socket_once s'" for v s'
    by (simp add: resolve_def write_timings_def Let_def)
  show ?thesis
    by (simp add: on_response_def Let_def p r f v split: option.splits sum.splits)
qed

lemma reqTimeout_step:
  assumes "reqTimeout (step env rq now ev s)"
  shows "reqTimeout s \<or> (ev = EvSocket \<and> sent s \<and> socket_once s \<and> request.timeout rq \<noteq> 0)"
proof (cases ev)
  case (EvResponse res)
  with assms reqTimeout_on_response show ?thesis by (auto split: if_splits)
next
  case (EvData chunk)
  with assms show ?thesis
    by (auto simp add: deliver_def Let_def resolve_def write_timings_def split: option.splits if_splits)
qed (use assms in \<open>auto simp add: write_timings_def Let_def finalize_def reject_def abortAndFinalize_def
      abort_def split: if_splits option.splits\<close>)

lemma socket_once_step: "socket_once (step env rq now ev s) \<Longrightarrow> socket_once s"
proof (cases ev)
  case (EvResponse res)
  assume "socket_once (step env rq now ev s)"
  with EvResponse show ?thesis by (auto simp add: socket_once_on_response split: if_splits)
next
  case (EvData chunk)
  assume "socket_once (step env rq now ev s)"
  with EvData show ?thesis
    by (auto simp add: deliver_def Let_def resolve_def write_timings_def split: option.splits if_splits)
qed (auto simp add: write_timings_def Let_def finalize_def reject_def abortAndFinalize_def abort_def
      split: if_splits option.splits)

lemma disarmed_run:
  assumes "\<not> reqTimeout s" "\<not> socket_once s \<or> request.timeout rq = 0"
  shows "\<not> reqTimeout (run env rq evs s) \<and>
         timed_out (promise (run env rq evs s)) = timed_out (promise s)"
proof -
  let ?P = "\<lambda>s'. \<not> reqTimeout s' \<and> (\<not> socket_once s' \<or> request.timeout rq = 0) \<and>
                  timed_out (promise s') = timed_out (promise s)"
  have "?P (run env rq evs s)"
  proof (rule run_invariant)
    show "?P s" using assms by simp
  next
    fix s' :: dispatch and now ev
    assume a: "?P s'"
    then have "\<not> reqTimeout (step env rq now ev s')"
      using reqTimeout_step[of env rq now ev s'] by blast
    moreover have "\<not> socket_once (step env rq now ev s') \<or> request.timeout rq = 0"
      using a socket_once_step[of env rq now ev s'] by auto
    moreover have "timed_out (promise (step env rq now ev s')) = timed_out (promise s)"
      using a timed_out_step[of s' env rq now ev] by simp
    ultimately show "?P (step env rq now ev s')" by blast
  qed
  then show ?thesis by blast
qed

text \<open>
  C4, as the code has it: with a timeout other than 0 the socket event arms the timer;
  the timer, firing while the promise is pending, rejects with the FetchError of type
  request-timeout and tears down; the response clears the timer, and once the socket
  event has passed nothing arms it again, so that no later event of the call raises
  that error. The request of a follow-up call is built without the timeout and has
  timeout 0: the follow-up call arms no timer and never raises that error.
\<close>

theorem timeout_per_call:
  "(request.timeout rq \<noteq> 0 \<and> sent s \<and> socket_once s \<longrightarrow>
      reqTimeout (step env rq now EvSocket s)) \<and>
   (reqTimeout s \<and> promise s = Pending \<longrightarrow>
      promise (step env rq now EvTimeout s) =
        Rejected (FetchError (''network timeout at: '' @ request.url rq) ''request-timeout'')
          (dispatch.timings s) \<and>
      req_aborted (step env rq now EvTimeout s) \<and>
      \<not> reqTimeout (step env rq now EvTimeout s)) \<and>
   (sent s \<and> response_once s \<longrightarrow> \<not> reqTimeout (step env rq now (EvResponse res) s)) \<and>
   (sent s \<and> response_once s \<and> \<not> socket_once s \<longrightarrow>
      (\<forall>evs. \<not> reqTimeout (run env rq evs (step env rq now (EvResponse res) s)) \<and>
             (timed_out (promise (run env rq evs (step env rq now (EvResponse res) s))) \<longrightarrow>
                timed_out (promise s)))) \<and>
   (promise s = Pending \<and> promise (on_response env rq now res s) = Forwarded rq' \<longrightarrow>
      request.timeout rq' = 0 \<and>
      (\<forall>evs. \<not> reqTimeout (run env rq' evs (start rq')) \<and>
             \<not> timed_out (promise (run env rq' evs (start rq')))))"
proof (intro conjI impI)
  assume "request.timeout rq \<noteq> 0 \<and> sent s \<and> socket_once s"
  then show "reqTimeout (step env rq now EvSocket s)" by (simp add: Let_def)
next
  assume a: "reqTimeout s \<and> promise s = Pending"
  then show "promise (step env rq now EvTimeout s) =
        Rejected (FetchError (''network timeout at: '' @ request.url rq) ''request-timeout'')
          (dispatch.timings s)"
    by (simp add: promise_finalize promise_reject)
  from a show "req_aborted (step env rq now EvTimeout s)"
    by (simp add: finalize_def Let_def)
  from a show "\<not> reqTimeout (step env rq now EvTimeout s)"
    by (simp add: finalize_def Let_def)
next
  assume "sent s \<and> response_once s"
  then show "\<not> reqTimeout (step env rq now (EvResponse res) s)"
    by (simp add: reqTimeout_on_response)
next
  assume a: "sent s \<and> response_once s \<and> \<not> socket_once s"
  let ?s1 = "step env rq now (EvResponse res) s"
  from a have eq: "?s1 = on_response env rq now res (s\<lparr>response_once := False\<rparr>)" by simp
  have r: "\<not> reqTimeout ?s1" unfolding eq by (rule reqTimeout_on_response)
  have k: "\<not> socket_once ?s1" unfolding eq using a by (simp add: socket_once_on_response)
  have t: "timed_out (promise ?s1) = timed_out (promise s)"
    unfolding eq by (simp add: timed_out_on_response)
  have "\<not> reqTimeout (run env rq evs ?s1) \<and>
        timed_out (promise (run env rq evs ?s1)) = timed_out (promise ?s1)" for evs
    using r k by (intro disarmed_run) blast+
  with t show "\<forall>evs. \<not> reqTimeout (run env rq evs ?s1) \<and>
             (timed_out (promise (run env rq evs ?s1)) \<longrightarrow> timed_out (promise s))"
    by blast
next
  assume a: "promise s = Pending \<and> promise (on_response env rq now res s) = Forwarded rq'"
  then have "\<exists>loc. rq' = Request_new (resolve_url env (request.url rq) loc)
                (step11 (statusCode res) rq (requestOpts_of rq))"
    using on_response_Forwarded[of s env rq now res rq'] by blast
  then show z: "request.timeout rq' = 0" by (auto simp add: Request_new_def)
  have r: "\<not> reqTimeout (start rq')"
    by (simp add: start_def initial_def abort_def reject_def Let_def)
  have t: "\<not> timed_out (promise (start rq'))"
    by (simp add: start_def initial_def abort_def reject_def Let_def timed_out_def)
  have "\<not> reqTimeout (run env rq' evs (start rq')) \<and>
        timed_out (promise (run env rq' evs (start rq'))) = timed_out (promise (start rq'))" for evs
    using r z by (intro disarmed_run) blast+
  with t show "\<forall>evs. \<not> reqTimeout (run env rq' evs (start rq')) \<and>
             \<not> timed_out (promise (run env rq' evs (start rq')))"
    by blast
qed

theorem timeout_per_call_witness:
  "request.timeout sample_get \<noteq> 0 \<and> sent (start sample_get) \<and> socket_once (start sample_get) \<and>
   reqTimeout (step sample_env sample_get ''1.00'' EvSocket (start sample_get)) \<and>
   promise (step sample_env sample_get ''1.00'' EvSocket (start sample_get)) = Pending \<and>
   promise (step sample_env sample_get ''5000.00'' EvTimeout
              (step sample_env sample_get ''1.00'' EvSocket (start sample_get))) =
     Rejected (FetchError ''network timeout at: http://h/a'' ''request-timeout'') empty_timings \<and>
   response_once (step sample_env sample_get ''1.00'' EvSocket (start sample_get)) \<and>
   \<not> socket_once (step sample_env sample_get ''1.00'' EvSocket (start sample_get)) \<and>
   \<not> reqTimeout (step sample_env sample_get ''5000.00'' (EvResponse (sample_ok ''gzip''))
                  (step sample_env sample_get ''1.00'' EvSocket (start sample_get))) \<and>
   \<not> timed_out (promise (run sample_env sample_get [(''5000.00'', EvTimeout)]
                  (step sample_env sample_get ''5000.00'' (EvResponse (sample_ok ''gzip''))
                     (step sample_env sample_get ''1.00'' EvSocket (start sample_get))))) \<and>
   promise (on_response sample_env sample_get ''1.00'' (sample_redirect 302) (start sample_get)) =
     Forwarded sample_second \<and>
   request.timeout sample_second = 0 \<and>
   \<not> reqTimeout (run sample_env sample_second [(''1.00'', EvSocket)] (start sample_second))"
proof -
  let ?s0 = "start sample_get"
  let ?s1 = "step sample_env sample_get ''1.00'' EvSocket (start sample_get)"
  have h0: "request.timeout sample_get \<noteq> 0 \<and> sent ?s0 \<and> socket_once ?s0"
    by (simp add: sample_get_def start_def initial_def)
  have p0: "promise ?s0 = Pending"
    by (simp add: sample_get_def start_def initial_def)
  have h1: "promise ?s1 = Pending \<and> sent ?s1 \<and> response_once ?s1 \<and> \<not> socket_once ?s1 \<and>
      dispatch.timings ?s1 = empty_timings \<and> \<not> timed_out (promise ?s1)"
    by code_simp
  have u: "request.url sample_get = ''http://h/a''" by (simp add: sample_get_def)
  have f: "promise (on_response sample_env sample_get ''1.00'' (sample_redirect 302) ?s0) =
      Forwarded sample_second"
    by code_simp
  note a = timeout_per_call[where rq=sample_get and s="?s0" and env=sample_env and now="''1.00''"
      and res="sample_redirect 302" and rq'=sample_second]
  note b = timeout_per_call[where rq=sample_get and s="?s1" and env=sample_env and now="''5000.00''"
      and res="sample_ok ''gzip''" and rq'=sample_second]
  from a h0 have c1: "reqTimeout ?s1" by blast
  from b c1 h1 u have c2: "promise (step sample_env sample_get ''5000.00'' EvTimeout ?s1) =
      Rejected (FetchError ''network timeout at: http://h/a'' ''request-timeout'') empty_timings"
    by (simp del: step.simps)
  from b h1 have c3: "\<not> reqTimeout (step sample_env sample_get ''5000.00''
      (EvResponse (sample_ok ''gzip'')) ?s1)"
    by blast
  from b h1 have c4: "\<not> timed_out (promise (run sample_env sample_get [(''5000.00'', EvTimeout)]
      (step sample_env sample_get ''5000.00'' (EvResponse (sample_ok ''gzip'')) ?s1)))"
    by blast
  from a p0 f have c5: "request.timeout sample_second = 0 \<and>
      \<not> reqTimeout (run sample_env sample_second [(''1.00'', EvSocket)] (start sample_second))"
    by blast
  from h0 h1 c1 c2 c3 c4 c5 f show ?thesis by (simp del: step.simps run.simps)
qed

theorem timeout_every_hop_counterexample:
  "request.timeout sample_get = 5000 \<and>
   reqTimeout (run sample_env sample_get [(''1.00'', EvSocket)] (start sample_get)) \<and>
   promise (run sample_env sample_get
              [(''1.00'', EvSocket), (''2.00'', EvResponse (sample_redirect 302))]
              (start sample_get)) = Forwarded sample_second \<and>
   request.timeout sample_second = 0 \<and>
   \<not> reqTimeout (run sample_env sample_second [(''1.00'', EvSocket)] (start sample_second)) \<and>
   promise (run sample_env sample_second [(''1.00'', EvSocket), (''5000.00'', EvTimeout)]
              (start sample_second)) = Pending"
  by code_simp

subsection \<open>The hop bound\<close>

lemma start_live:
  assumes "request.signal rq \<noteq> Some True"
  shows "promise (start rq) = Pending" "sent (start rq)" "response_once (start rq)"
    "dispatch.timings (start rq) = empty_timings"
  using assms by (simp_all add: start_def initial_def Let_def)

lemma getTotalBytes_None: "(getTotalBytes rq = None) = (request.body rq = Some Readable)"
  by (simp add: getTotalBytes_def split: option.splits body_source.splits)

lemma hop_followed:
  assumes "request.redirect rq = ''follow''" "request.signal rq \<noteq> Some True"
    "request.body rq \<noteq> Some Readable" "isRedirect (statusCode (snd tr))"
    "Headers_get (IncomingMessage.headers (snd tr)) ''Location'' \<noteq> None"
    "request.counter rq < request.follow rq"
  shows "promise (run env rq (hop tr) (start rq)) = Forwarded (follow_up env rq (snd tr))"
proof -
  from assms(5) obtain loc where
    l: "Headers_get (IncomingMessage.headers (snd tr)) ''Location'' = Some loc" by blast
  let ?s = "(start rq)\<lparr>response_once := False\<rparr>"
  have p: "promise ?s = Pending" using start_live(1)[OF assms(2)] by simp
  have "run env rq (hop tr) (start rq) = on_response env rq (fst tr) (snd tr) ?s"
    using start_live(2,3)[OF assms(2)] by (simp add: hop_def)
  then show ?thesis
    using on_response_follow[OF assms(1,4) l assms(6) p, of env "fst tr"] assms(3) l
    by (simp add: getTotalBytes_None follow_up_def)
qed

lemma hop_max_redirect:
  assumes "request.redirect rq = ''follow''" "request.signal rq \<noteq> Some True"
    "isRedirect (statusCode (snd tr))"
    "Headers_get (IncomingMessage.headers (snd tr)) ''Location'' \<noteq> None"
    "request.follow rq \<le> request.counter rq"
  shows "promise (run env rq (hop tr) (start rq)) =
           Rejected (FetchError (''maximum redirect reached at: '' @ request.url rq) ''max-redirect'')
             empty_timings"
proof -
  let ?s = "(start rq)\<lparr>response_once := False\<rparr>"
  have p: "promise (?s\<lparr>reqTimeout := False\<rparr>) = Pending"
    and t: "dispatch.timings (?s\<lparr>reqTimeout := False\<rparr>) = empty_timings"
    using start_live(1,4)[OF assms(2)] by simp_all
  have "run env rq (hop tr) (start rq) = on_response env rq (fst tr) (snd tr) ?s"
    using start_live(2,3)[OF assms(2)] by (simp add: hop_def)
  then show ?thesis
    using assms(1,3,4,5) p t
    by (auto simp add: on_response_def Let_def promise_finalize promise_reject)
qed

lemma follow_up_fields:
  "request.redirect (follow_up env rq res) = ''follow''"
  "request.signal (follow_up env rq res) = request.signal rq"
  "request.follow (follow_up env rq res) = request.follow rq"
  "request.counter (follow_up env rq res) = request.counter rq + 1"
  "request.body rq \<noteq> Some Readable \<Longrightarrow> request.body (follow_up env rq res) \<noteq> Some Readable"
  by (simp_all add: follow_up_def Request_new_def step11_def requestOpts_of_def)

lemma chain_followed:
  assumes "request.redirect rq = ''follow''" "request.signal rq \<noteq> Some True"
    "request.body rq \<noteq> Some Readable"
    "\<forall>tr\<in>set trs. statusCode (snd tr) = 302 \<and>
       Headers_get (IncomingMessage.headers (snd tr)) ''Location'' \<noteq> None"
    "request.counter rq + length trs \<le> request.follow rq"
  shows "fetch env rq (map hop trs @ rest) = fetch env (foldl (follow_up env) rq (map snd trs)) rest"
  using assms
proof (induction trs arbitrary: rq)
  case Nil
  then show ?case by simp
next
  case (Cons tr trs)
  have r: "isRedirect (statusCode (snd tr))" using Cons.prems(4) by (simp add: isRedirect_def)
  have l: "Headers_get (IncomingMessage.headers (snd tr)) ''Location'' \<noteq> None"
    using Cons.prems(4) by simp
  have c: "request.counter rq < request.follow rq" using Cons.prems(5) by simp
  have f: "promise (run env rq (hop tr) (start rq)) = Forwarded (follow_up env rq (snd tr))"
    using Cons.prems(1-3) r l c by (rule hop_followed)
  let ?rq = "follow_up env rq (snd tr)"
  have "fetch env ?rq (map hop trs @ rest) = fetch env (foldl (follow_up env) ?rq (map snd trs)) rest"
  proof (rule Cons.IH)
    show "request.redirect ?rq = ''follow''" by (rule follow_up_fields)
    show "request.signal ?rq \<noteq> Some True" using Cons.prems(2) by (simp add: follow_up_fields)
    show "request.body ?rq \<noteq> Some Readable" using Cons.prems(3) by (rule follow_up_fields)
    show "\<forall>tr\<in>set trs. statusCode (snd tr) = 302 \<and>
       Headers_get (IncomingMessage.headers (snd tr)) ''Location'' \<noteq> None"
      using Cons.prems(4) by simp
    show "request.counter ?rq + length trs \<le> request.follow ?rq"
      using Cons.prems(5) by (simp add: follow_up_fields)
  qed
  with f show ?case by simp
qed

lemma foldl_follow_up_fields:
  assumes "request.redirect rq = ''follow''" "request.signal rq \<noteq> Some True"
  shows "request.redirect (foldl (follow_up env) rq rs) = ''follow'' \<and>
         request.signal (foldl (follow_up env) rq rs) \<noteq> Some True \<and>
         request.follow (foldl (follow_up env) rq rs) = request.follow rq \<and>
         request.counter (foldl (follow_up env) rq rs) = request.counter rq + length rs"
  using assms
proof (induction rs arbitrary: rq)
  case Nil
  then show ?case by simp
next
  case (Cons r rs)
  from Cons.IH[of "follow_up env rq r"] Cons.prems
  show ?case by (simp add: follow_up_fields)
qed

lemma chain_max_redirect:
  assumes "request.redirect rq = ''follow''" "request.signal rq \<noteq> Some True"
    "request.body rq \<noteq> Some Readable" "request.counter rq = 0"
    "\<forall>tr\<in>set trs. statusCode (snd tr) = 302 \<and>
       Headers_get (IncomingMessage.headers (snd tr)) ''Location'' \<noteq> None"
    "length trs = request.follow rq + 1"
  shows "fetch env rq (map hop trs @ rest) =
           Rejected (FetchError (''maximum redirect reached at: '' @
                        request.url (foldl (follow_up env) rq (map snd (butlast trs))))
                       ''max-redirect'') empty_timings"
proof -
  from assms(6) have ne: "trs \<noteq> []" by auto
  then have sp: "trs = butlast trs @ [last trs]" by simp
  let ?bs = "butlast trs" and ?tr = "last trs"
  let ?rq = "foldl (follow_up env) rq (map snd ?bs)"
  have in_set: "\<forall>tr\<in>set ?bs. statusCode (snd tr) = 302 \<and>
       Headers_get (IncomingMessage.headers (snd tr)) ''Location'' \<noteq> None"
    using assms(5) by (auto dest: in_set_butlastD)
  have lb: "request.counter rq + length ?bs \<le> request.follow rq"
    using assms(4,6) by simp
  have "map hop trs @ rest = map hop ?bs @ (hop ?tr # rest)"
    using sp by (metis append_Cons append_Nil append_assoc list.simps(8,9) map_append)
  then have "fetch env rq (map hop trs @ rest) = fetch env ?rq (hop ?tr # rest)"
    using chain_followed[OF assms(1-3) in_set lb, of env "hop ?tr # rest"] by simp
  moreover have fl: "request.redirect ?rq = ''follow'' \<and> request.signal ?rq \<noteq> Some True \<and>
         request.follow ?rq = request.follow rq \<and>
         request.counter ?rq = request.counter rq + length (map snd ?bs)"
    using assms(1,2) by (rule foldl_follow_up_fields)
  moreover have "statusCode (snd ?tr) = 302 \<and>
       Headers_get (IncomingMessage.headers (snd ?tr)) ''Location'' \<noteq> None"
    using assms(5) ne by simp
  moreover have "request.follow ?rq \<le> request.counter ?rq"
    using fl assms(4,6) by simp
  ultimately show ?thesis
    using hop_max_redirect[of ?rq ?tr env] by (simp add: isRedirect_def)
qed

text \<open>
  C2, as the code has it. In follow mode, on a redirect status with a Location header
  and a pending promise, a counter that has reached \<open>follow\<close> rejects with the FetchError
  of type max-redirect and tears down. Whenever the handler resolves with a follow-up
  call, the counter was below \<open>follow\<close> and the follow-up request has the counter plus one.
  For a request in follow mode with counter 0, a signal that is not aborted and a body
  that is absent or of known size, and responses of status 302 with a Location header,
  one per call: \<open>n \<le> follow\<close> of them lead to the call for the last Location, whose
  settlement is the settlement of the whole; \<open>follow + 1\<close> of them reject with
  max-redirect at the last request reached.
\<close>

theorem redirect_bound:
  "(request.redirect rq = ''follow'' \<and> isRedirect (statusCode res) \<and>
    Headers_get (IncomingMessage.headers res) ''Location'' \<noteq> None \<and>
    promise s = Pending \<and> request.follow rq \<le> request.counter rq \<longrightarrow>
      promise (on_response env rq now res s) =
        Rejected (FetchError (''maximum redirect reached at: '' @ request.url rq) ''max-redirect'')
          (dispatch.timings s) \<and>
      req_aborted (on_response env rq now res s)) \<and>
   (\<forall>rq'. promise s = Pending \<and> promise (on_response env rq now res s) = Forwarded rq' \<longrightarrow>
      request.counter rq < request.follow rq \<and>
      rq' = follow_up env rq res \<and>
      request.counter rq' = request.counter rq + 1 \<and>
      request.follow rq' = request.follow rq) \<and>
   (request.redirect rq = ''follow'' \<and> request.counter rq = 0 \<and>
    request.signal rq \<noteq> Some True \<and> request.body rq \<noteq> Some Readable \<and>
    (\<forall>tr\<in>set trs. statusCode (snd tr) = 302 \<and>
       Headers_get (IncomingMessage.headers (snd tr)) ''Location'' \<noteq> None) \<longrightarrow>
      (length trs \<le> request.follow rq \<longrightarrow>
         fetch env rq (map hop trs @ rest) =
           fetch env (foldl (follow_up env) rq (map snd trs)) rest) \<and>
      (length trs = request.follow rq + 1 \<longrightarrow>
         fetch env rq (map hop trs @ rest) =
           Rejected (FetchError (''maximum redirect reached at: '' @
                        request.url (foldl (follow_up env) rq (map snd (butlast trs))))
                       ''max-redirect'') empty_timings))"
proof (intro conjI allI impI)
  assume a: "request.redirect rq = ''follow'' \<and> isRedirect (statusCode res) \<and>
    Headers_get (IncomingMessage.headers res) ''Location'' \<noteq> None \<and>
    promise s = Pending \<and> request.follow rq \<le> request.counter rq"
  then show "promise (on_response env rq now res s) =
        Rejected (FetchError (''maximum redirect reached at: '' @ request.url rq) ''max-redirect'')
          (dispatch.timings s)"
    by (auto simp add: on_response_def Let_def promise_finalize promise_reject)
  from a show "req_aborted (on_response env rq now res s)"
    by (auto simp add: on_response_def Let_def finalize_def)
next
  fix rq'
  assume a: "promise s = Pending \<and> promise (on_response env rq now res s) = Forwarded rq'"
  then have c: "request.counter rq < request.follow rq \<and>
     (\<exists>loc. Headers_get (IncomingMessage.headers res) ''Location'' = Some loc \<and>
        rq' = Request_new (resolve_url env (request.url rq) loc)
                (step11 (statusCode res) rq (requestOpts_of rq)))"
    using on_response_Forwarded[of s env rq now res rq'] by blast
  then show "request.counter rq < request.follow rq" by blast
  from c show e: "rq' = follow_up env rq res" by (auto simp add: follow_up_def)
  show "request.counter rq' = request.counter rq + 1" unfolding e by (rule follow_up_fields)
  show "request.follow rq' = request.follow rq" unfolding e by (rule follow_up_fields)
next
  assume a: "request.redirect rq = ''follow'' \<and> request.counter rq = 0 \<and>
    request.signal rq \<noteq> Some True \<and> request.body rq \<noteq> Some Readable \<and>
    (\<forall>tr\<in>set trs. statusCode (snd tr) = 302 \<and>
       Headers_get (IncomingMessage.headers (snd tr)) ''Location'' \<noteq> None)"
  assume "length trs \<le> request.follow rq"
  with a show "fetch env rq (map hop trs @ rest) =
           fetch env (foldl (follow_up env) rq (map snd trs)) rest"
    by (intro chain_followed) simp_all
next
  assume a: "request.redirect rq = ''follow'' \<and> request.counter rq = 0 \<and>
    request.signal rq \<noteq> Some True \<and> request.body rq \<noteq> Some Readable \<and>
    (\<forall>tr\<in>set trs. statusCode (snd tr) = 302 \<and>
       Headers_get (IncomingMessage.headers (snd tr)) ''Location'' \<noteq> None)"
  assume "length trs = request.follow rq + 1"
  with a show "fetch env rq (map hop trs @ rest) =
           Rejected (FetchError (''maximum redirect reached at: '' @
                        request.url (foldl (follow_up env) rq (map snd (butlast trs))))
                       ''max-redirect'') empty_timings"
    by (intro chain_max_redirect) simp_all
qed

theorem redirect_bound_witness:
  "request.redirect sample_get = ''follow'' \<and> request.counter sample_get = 0 \<and>
   request.follow sample_get = 2 \<and>
   request.signal sample_get \<noteq> Some True \<and> request.body sample_get \<noteq> Some Readable \<and>
   list_all (\<lambda>tr. statusCode (snd tr) = 302 \<and>
       Headers_get (IncomingMessage.headers (snd tr)) ''Location'' \<noteq> None) (sample_chain 3) \<and>
   fetch sample_env sample_get (map hop (sample_chain 2) @ sample_final) =
     fetch sample_env (sample_second\<lparr>request.counter := 2\<rparr>) sample_final \<and>
   (case fetch sample_env sample_get (map hop (sample_chain 2) @ sample_final) of
      Fulfilled r \<Rightarrow> (Response.url r, Response.status r)
    | _ \<Rightarrow> (None, 0)) = (Some ''http://h/x'', 200) \<and>
   fetch sample_env sample_get (map hop (sample_chain 3) @ sample_final) =
     Rejected (FetchError ''maximum redirect reached at: http://h/x'' ''max-redirect'') empty_timings"
proof -
  have h: "request.redirect sample_get = ''follow'' \<and> request.counter sample_get = 0 \<and>
      request.signal sample_get \<noteq> Some True \<and> request.body sample_get \<noteq> Some Readable"
    by (simp add: sample_get_def)
  have f2: "request.follow sample_get = 2" by (simp add: sample_get_def)
  have l3: "list_all (\<lambda>tr. statusCode (snd tr) = 302 \<and>
       Headers_get (IncomingMessage.headers (snd tr)) ''Location'' \<noteq> None) (sample_chain 3)"
    by code_simp
  have l2: "list_all (\<lambda>tr. statusCode (snd tr) = 302 \<and>
       Headers_get (IncomingMessage.headers (snd tr)) ''Location'' \<noteq> None) (sample_chain 2)"
    by code_simp
  have n2: "length (sample_chain 2) \<le> request.follow sample_get"
    and n3: "length (sample_chain 3) = request.follow sample_get + 1"
    by (simp_all add: sample_chain_def sample_get_def)
  have d2: "foldl (follow_up sample_env) sample_get (map snd (sample_chain 2)) =
      sample_second\<lparr>request.counter := 2\<rparr>"
    by code_simp
  have u3: "request.url (foldl (follow_up sample_env) sample_get (map snd (butlast (sample_chain 3)))) =
      ''http://h/x''"
    by code_simp
  have v: "(case fetch sample_env (sample_second\<lparr>request.counter := 2\<rparr>) sample_final of
      Fulfilled r \<Rightarrow> (Response.url r, Response.status r)
    | _ \<Rightarrow> (None, 0)) = (Some ''http://h/x'', 200)"
    by code_simp
  note a = redirect_bound[where rq=sample_get and env=sample_env and trs="sample_chain 2"
      and rest=sample_final]
  note b = redirect_bound[where rq=sample_get and env=sample_env and trs="sample_chain 3"
      and rest=sample_final]
  from a h l2 n2 d2 have c2: "fetch sample_env sample_get (map hop (sample_chain 2) @ sample_final) =
     fetch sample_env (sample_second\<lparr>request.counter := 2\<rparr>) sample_final"
    by (simp add: list_all_iff)
  from b h l3 n3 u3 have c3: "fetch sample_env sample_get (map hop (sample_chain 3) @ sample_final) =
     Rejected (FetchError ''maximum redirect reached at: http://h/x'' ''max-redirect'') empty_timings"
    by (simp add: list_all_iff)
  from h f2 l3 c2 c3 v show ?thesis by simp
qed

theorem redirect_chain_counterexample:
  "request.redirect sample_stream_put = ''follow'' \<and> request.counter sample_stream_put = 0 \<and>
   request.follow sample_stream_put = 2 \<and> request.body sample_stream_put = Some Readable \<and>
   list_all (\<lambda>tr. statusCode (snd tr) = 302 \<and>
       Headers_get (IncomingMessage.headers (snd tr)) ''Location'' \<noteq> None) (sample_chain 3) \<and>
   fetch sample_env sample_stream_put (map hop (sample_chain 1) @ sample_final) =
     Rejected (FetchError ''Cannot follow redirect with body being a readable stream''
                 ''unsupported-redirect'') empty_timings \<and>
   fetch sample_env sample_stream_put (map hop (sample_chain 3) @ sample_final) =
     Rejected (FetchError ''Cannot follow redirect with body being a readable stream''
                 ''unsupported-redirect'') empty_timings"
  by code_simp

text \<open>
  C3: every signal that a call in flight observes is to fire exactly one of the two
  paths. The code misses this at \<open>sample_del\<close> with \<open>sample_query_redirect\<close>: the manual
  case cannot rewrite the Location, and its \<^verbatim>\<open>catch\<close> rejects the promise without
  \<^verbatim>\<open>finalize()\<close> and without \<^verbatim>\<open>return\<close>, which every other rejecting branch of the handler
  has. The request goes on, the listener stays registered, and with Content-Encoding
  deflate no Response is built before the first chunk. A signal that fires then neither
  settles the promise (it is settled) nor emits on a stream (there is none): the
  AbortError is delivered nowhere.
\<close>

theorem abort_after_failed_rewrite:
  "request.redirect sample_del = ''manual'' \<and>
   Headers_get (IncomingMessage.headers sample_query_redirect) ''Location'' = Some ''?q'' \<and>
   legal_value sample_env ''?q'' \<and>
   abort_listener (run sample_env sample_del sample_waiting (start sample_del)) \<and>
   \<not> req_aborted (run sample_env sample_del sample_waiting (start sample_del)) \<and>
   promise (run sample_env sample_del sample_waiting (start sample_del)) =
     Rejected (HeaderCorruptionError (''http://h/a'' @ [CHR 0x7F] @ ''?q'')) empty_timings \<and>
   response (run sample_env sample_del sample_waiting (start sample_del)) = None \<and>
   raw_once (run sample_env sample_del sample_waiting (start sample_del)) \<noteq> None \<and>
   promise (step sample_env sample_del ''3.00'' EvAbort
              (run sample_env sample_del sample_waiting (start sample_del))) =
     promise (run sample_env sample_del sample_waiting (start sample_del)) \<and>
   stream_errors (step sample_env sample_del ''3.00'' EvAbort
              (run sample_env sample_del sample_waiting (start sample_del))) =
     stream_errors (run sample_env sample_del sample_waiting (start sample_del)) \<and>
   stream_errors (run sample_env sample_del sample_waiting (start sample_del)) = []"
  by code_simp

end
